theory Spec2Isabelle
  imports Complex_Main "HOL-Library.Word"
begin

text \<open>
  A model of the core of the video pipeline: frame metadata, the block base with its
  state, parameters, statistics and error hook, the sink base with its bounded queue and
  worker, the source base with its frame-rate gate, the test pattern source, and the
  block creation pass of the pipeline manager. Each C++ member function is a function
  from the object before the call to its result and the object after it; threads meet
  the model as the order in which such functions are applied.
\<close>

section \<open>Frame metadata (buffer.h, buffer.cpp)\<close>

text \<open>
  The enum class \<open>PixelFormat\<close> and the struct \<open>FrameInfo\<close>. The fields keep the widths
  the header gives them: \<open>width\<close>, \<open>height\<close> and \<open>stride\<close> are \<open>uint32_t\<close>,
  \<open>timestamp_us\<close> and \<open>sequence_number\<close> are \<open>uint64_t\<close>. The opaque \<open>hw_handle\<close>
  pointer is kept as an address.
\<close>

datatype PixelFormat =
  UNKNOWN | RGB24 | BGR24 | RGBA32 | BGRA32 | YUV420P | NV12 | NV21 | YUYV | UYVY

record FrameInfo =
  width :: "32 word"
  height :: "32 word"
  stride :: "32 word"
  pixel_format :: PixelFormat
  timestamp_us :: "64 word"
  sequence_number :: "64 word"
  is_hardware_buffer :: bool
  hw_handle :: "64 word"

text \<open>
  \<open>FrameInfo::GetFrameSize\<close>. The operands are \<open>uint32_t\<close>, so C++ evaluates
  \<open>width * height * 3\<close> (and the division by 2) in 32-bit unsigned arithmetic; only the
  result is converted to \<open>size_t\<close> (64 bits here), which \<open>ucast\<close> does.
\<close>

definition GetFrameSize :: "'a FrameInfo_scheme \<Rightarrow> 64 word" where
  "GetFrameSize fi =
     (case pixel_format fi of
        RGB24 \<Rightarrow> ucast (width fi * height fi * 3)
      | BGR24 \<Rightarrow> ucast (width fi * height fi * 3)
      | RGBA32 \<Rightarrow> ucast (width fi * height fi * 4)
      | BGRA32 \<Rightarrow> ucast (width fi * height fi * 4)
      | YUV420P \<Rightarrow> ucast (width fi * height fi * 3 div 2)
      | NV12 \<Rightarrow> ucast (width fi * height fi * 3 div 2)
      | NV21 \<Rightarrow> ucast (width fi * height fi * 3 div 2)
      | YUYV \<Rightarrow> ucast (width fi * height fi * 2)
      | UYVY \<Rightarrow> ucast (width fi * height fi * 2)
      | UNKNOWN \<Rightarrow> 0)"

text \<open>
  A video frame as the blocks see it: its \<open>FrameInfo\<close> and the byte count \<open>GetSize()\<close>
  reports. The pixel data itself is not read by the base classes.
\<close>

record Frame =
  frame_info :: FrameInfo
  data_size :: "64 word"

section \<open>Block base (block.h, block.cpp)\<close>

datatype BlockState =
  UNINITIALIZED | INITIALIZED | STARTING | RUNNING | STOPPING | STOPPED | ERROR

type_synonym BlockParams = "string \<rightharpoonup> string"

text \<open>
  \<open>BlockStats\<close>. The two \<open>double\<close> fields (\<open>avg_fps\<close>, \<open>avg_latency_ms\<close>) are floating
  point and are left out; \<open>last_frame_time\<close> is a reading of the steady clock, in
  nanoseconds.
\<close>

record BlockStats =
  frames_processed :: "64 word"
  frames_dropped :: "64 word"
  bytes_processed :: "64 word"
  queue_depth :: "32 word"
  last_frame_time :: int

text \<open>
  \<open>BaseBlock\<close>. The error callback is a \<open>std::function\<close> owned by the caller; the model
  keeps whether one is installed (\<open>error_callback\<close>) and the messages it has been invoked
  with, oldest first (\<open>error_calls\<close>). Member names are the source's without the
  trailing underscore (\<open>state_\<close> is \<open>state\<close>, \<open>name_\<close> is \<open>block_name\<close>).
\<close>

record Block =
  block_name :: string
  block_type :: string
  state :: BlockState
  last_error :: string
  error_callback :: bool
  error_calls :: "string list"
  params :: BlockParams
  stats :: BlockStats

definition GetState :: "'a Block_scheme \<Rightarrow> BlockState" where
  "GetState b = state b"

definition SetState :: "BlockState \<Rightarrow> 'a Block_scheme \<Rightarrow> 'a Block_scheme" where
  "SetState st b = b\<lparr>state := st\<rparr>"

definition SetParameter :: "string \<Rightarrow> string \<Rightarrow> 'a Block_scheme \<Rightarrow> bool \<times> 'a Block_scheme" where
  "SetParameter key val b = (True, b\<lparr>params := (params b)(key \<mapsto> val)\<rparr>)"

definition GetParameter :: "string \<Rightarrow> 'a Block_scheme \<Rightarrow> string" where
  "GetParameter key b = (case params b key of Some v \<Rightarrow> v | None \<Rightarrow> [])"

definition SetError :: "string \<Rightarrow> 'a Block_scheme \<Rightarrow> 'a Block_scheme" where
  "SetError err b =
     (let b1 = b\<lparr>last_error := err\<rparr>;
          b2 = SetState ERROR b1
      in if error_callback b2 then b2\<lparr>error_calls := error_calls b2 @ [err]\<rparr> else b2)"

text \<open>
  \<open>BaseBlock::UpdateStats(frame_processed, bytes, dropped)\<close>; \<open>now\<close> is the clock reading
  the function takes. The counters are \<open>uint64_t\<close> and wrap.
\<close>

definition UpdateStats :: "int \<Rightarrow> bool \<Rightarrow> 64 word \<Rightarrow> bool \<Rightarrow> 'a Block_scheme \<Rightarrow> 'a Block_scheme" where
  "UpdateStats now frame_processed bytes dropped b =
     (let st0 = stats b;
          st1 = (if frame_processed
                 then st0\<lparr>frames_processed := frames_processed st0 + 1,
                          bytes_processed := bytes_processed st0 + bytes,
                          last_frame_time := now\<rparr>
                 else st0);
          st2 = (if dropped then st1\<lparr>frames_dropped := frames_dropped st1 + 1\<rparr> else st1)
      in b\<lparr>stats := st2\<rparr>)"

text \<open>
  \<open>BaseBlock::ResetStats\<close>: the statistics as constructed, with \<open>last_frame_time\<close> set to
  the clock reading. It is public and does not look at the state.
\<close>

definition ResetStats :: "int \<Rightarrow> 'a Block_scheme \<Rightarrow> 'a Block_scheme" where
  "ResetStats now b =
     b\<lparr>stats := \<lparr>frames_processed = 0, frames_dropped = 0, bytes_processed = 0,
                  queue_depth = 0, last_frame_time = now\<rparr>\<rparr>"

text \<open>\<open>std::to_string\<close> on an unsigned integer: its decimal digits.\<close>

definition digit_char :: "nat \<Rightarrow> char" where
  "digit_char d = ''0123456789'' ! d"

function to_string :: "nat \<Rightarrow> string" where
  "to_string n = (if n < 10 then [digit_char n] else to_string (n div 10) @ [digit_char (n mod 10)])"
  by pat_completeness auto
termination
  by (relation "measure id") auto

declare to_string.simps [simp del]

section \<open>Sink base (video_sink.h, video_sink.cpp)\<close>

text \<open>
  \<open>BaseVideoSink\<close> extends the block. \<open>frame_queue\<close> is the \<open>std::queue\<close>, front first;
  \<open>max_queue_depth\<close> is a \<open>size_t\<close> that is only compared with sizes. The two condition
  variables are kept as counts of the notifications sent on them: \<open>queue_condition\<close> is
  the spec's \<open>not_empty\<close>, \<open>queue_not_full_condition\<close> its \<open>not_full\<close>.
\<close>

record Sink = Block +
  input_format :: FrameInfo
  max_queue_depth :: nat
  is_blocking :: bool
  frame_queue :: "Frame list"
  stop_worker :: bool
  queue_condition :: nat
  queue_not_full_condition :: nat

definition GetQueueDepth :: "'a Sink_scheme \<Rightarrow> nat" where
  "GetQueueDepth s = length (frame_queue s)"

definition GetMaxQueueDepth :: "'a Sink_scheme \<Rightarrow> nat" where
  "GetMaxQueueDepth s = max_queue_depth s"

definition SetMaxQueueDepth :: "nat \<Rightarrow> 'a Sink_scheme \<Rightarrow> bool \<times> 'a Sink_scheme" where
  "SetMaxQueueDepth depth s =
     (if depth = 0 \<or> depth > 1000
      then (False, SetError (''Invalid queue depth: '' @ to_string depth) s)
      else (True, s\<lparr>max_queue_depth := depth\<rparr>))"

text \<open>
  How a call ends. \<open>ProcessFrame\<close> either returns a value or is left waiting on the
  \<open>not_full\<close> condition variable; \<open>pop()\<close> on an empty \<open>std::queue\<close> is undefined
  behaviour in C++ and is a result of its own.
\<close>

datatype submit_result = Returned bool | Waiting | Undefined

text \<open>
  Lines 48 to 55 of \<open>ProcessFrame\<close>: push the frame, copy the size into
  \<open>stats_.queue_depth\<close> (a \<open>uint32_t\<close>), notify the worker, return true.
\<close>

definition ProcessFrame_push :: "Frame \<Rightarrow> 'a Sink_scheme \<Rightarrow> submit_result \<times> 'a Sink_scheme" where
  "ProcessFrame_push frame s =
     (let s1 = s\<lparr>frame_queue := frame_queue s @ [frame]\<rparr>;
          s2 = s1\<lparr>stats := (stats s1)\<lparr>queue_depth := of_nat (length (frame_queue s1))\<rparr>\<rparr>;
          s3 = s2\<lparr>queue_condition := queue_condition s2 + 1\<rparr>
      in (Returned True, s3))"

text \<open>
  The blocking branch, \<open>queue_not_full_condition_.wait(lock, pred)\<close> and what follows it.
  \<open>wait\<close> with a predicate returns at once when the predicate holds and otherwise
  sleeps, to test it again on the sink as it is when the thread is woken. So the function
  is applied to the sink as it is at each wake-up: \<open>Waiting\<close> says the thread stays
  asleep, and nothing has changed.
\<close>

definition ProcessFrame_wait :: "Frame \<Rightarrow> 'a Sink_scheme \<Rightarrow> submit_result \<times> 'a Sink_scheme" where
  "ProcessFrame_wait frame s =
     (if length (frame_queue s) < max_queue_depth s \<or> stop_worker s
      then (if stop_worker s then (Returned False, s) else ProcessFrame_push frame s)
      else (Waiting, s))"

text \<open>
  \<open>BaseVideoSink::ProcessFrame\<close>, the sink's submit. A null \<open>VideoFramePtr\<close> is \<open>None\<close>;
  \<open>now\<close> is the clock reading of the \<open>UpdateStats\<close> call in the drop branch.
\<close>

definition ProcessFrame :: "int \<Rightarrow> Frame option \<Rightarrow> 'a Sink_scheme \<Rightarrow> submit_result \<times> 'a Sink_scheme" where
  "ProcessFrame now frame s =
     (case frame of
        None \<Rightarrow> (Returned False, s)
      | Some f \<Rightarrow>
          if GetState s \<noteq> RUNNING then (Returned False, s)
          else if length (frame_queue s) \<ge> max_queue_depth s then
            (if \<not> is_blocking s then
               (case frame_queue s of
                  [] \<Rightarrow> (Undefined, s)
                | oldest # rest \<Rightarrow>
                    ProcessFrame_push f (UpdateStats now False 0 True (s\<lparr>frame_queue := rest\<rparr>)))
             else ProcessFrame_wait f s)
          else ProcessFrame_push f s)"

text \<open>
  \<open>BaseVideoSink::Stop\<close>, in the two halves the join separates: \<open>Stop_signal\<close> up to the
  notifications, \<open>Stop_drain\<close> after the worker has been joined. \<open>Stop\<close> composes them
  for a worker that takes no step in between; the worker's last steps, when it takes
  some, come between the halves.
\<close>

definition Stop_signal :: "'a Sink_scheme \<Rightarrow> 'a Sink_scheme" where
  "Stop_signal s =
     (let s1 = SetState STOPPING s
      in s1\<lparr>stop_worker := True,
            queue_condition := queue_condition s1 + 1,
            queue_not_full_condition := queue_not_full_condition s1 + 1\<rparr>)"

definition Stop_drain :: "'a Sink_scheme \<Rightarrow> 'a Sink_scheme" where
  "Stop_drain s = SetState STOPPED (s\<lparr>frame_queue := []\<rparr>)"

definition Stop :: "'a Sink_scheme \<Rightarrow> bool \<times> 'a Sink_scheme" where
  "Stop s =
     (if GetState s \<noteq> RUNNING then (True, s)
      else (True, Stop_drain (Stop_signal s)))"

definition Shutdown :: "'a Sink_scheme \<Rightarrow> bool \<times> 'a Sink_scheme" where
  "Shutdown s = (let (r, s1) = Stop s in (True, s1))"

text \<open>
  The worker. \<open>ProcessFrameImpl\<close> is pure virtual: the concrete hook is a parameter that
  may change the sink (a hook can call \<open>SetError\<close>) and returns a flag, throws a
  \<open>std::exception\<close> (with its \<open>what()\<close>), or throws something else.
\<close>

datatype hook_outcome = HookReturns bool | HookThrows string | HookThrowsOther

datatype dequeued = DequeueWaits | DequeueBreaks | DequeuedFrame Frame | DequeuedNothing

text \<open>
  The locked block of \<open>WorkerThread\<close>: the wait on \<open>queue_condition_\<close> (asleep while the
  queue is empty and stop is not signalled), the \<open>break\<close>, and the pop.
\<close>

definition WorkerThread_dequeue :: "'a Sink_scheme \<Rightarrow> dequeued \<times> 'a Sink_scheme" where
  "WorkerThread_dequeue s =
     (if \<not> (frame_queue s \<noteq> [] \<or> stop_worker s) then (DequeueWaits, s)
      else if stop_worker s \<and> frame_queue s = [] then (DequeueBreaks, s)
      else (case frame_queue s of
              [] \<Rightarrow> (DequeuedNothing, s)
            | front # rest \<Rightarrow>
                (let s1 = s\<lparr>frame_queue := rest\<rparr>;
                     s2 = s1\<lparr>stats := (stats s1)\<lparr>queue_depth := of_nat (length (frame_queue s1))\<rparr>\<rparr>;
                     s3 = s2\<lparr>queue_not_full_condition := queue_not_full_condition s2 + 1\<rparr>
                 in (DequeuedFrame front, s3))))"

text \<open>
  How one turn of the worker's loop ends: back at the loop head, out of the loop (the
  thread returns), asleep on the condition variable, or, for an exception that is not a
  \<open>std::exception\<close> and so leaves the thread function, \<open>std::terminate\<close>.
\<close>

datatype worker_step = Continue | Exit | Sleeps | Terminate

text \<open>The \<open>try\<close> block of \<open>WorkerThread\<close>, for a frame taken from the queue.\<close>

definition WorkerThread_process ::
  "(Frame \<Rightarrow> 'a Sink_scheme \<Rightarrow> hook_outcome \<times> 'a Sink_scheme) \<Rightarrow> int \<Rightarrow> Frame \<Rightarrow>
     'a Sink_scheme \<Rightarrow> worker_step \<times> 'a Sink_scheme" where
  "WorkerThread_process ProcessFrameImpl now frame s =
     (case ProcessFrameImpl frame s of
        (HookReturns success, s1) \<Rightarrow>
          (Continue, UpdateStats now success (data_size frame) (\<not> success) s1)
      | (HookThrows what, s1) \<Rightarrow> (Continue, UpdateStats now False 0 True s1)
      | (HookThrowsOther, s1) \<Rightarrow> (Terminate, s1))"

text \<open>One turn of \<open>while (!stop_worker_.load())\<close>.\<close>

definition WorkerThread_iteration ::
  "(Frame \<Rightarrow> 'a Sink_scheme \<Rightarrow> hook_outcome \<times> 'a Sink_scheme) \<Rightarrow> int \<Rightarrow>
     'a Sink_scheme \<Rightarrow> worker_step \<times> 'a Sink_scheme" where
  "WorkerThread_iteration ProcessFrameImpl now s =
     (if stop_worker s then (Exit, s)
      else (case WorkerThread_dequeue s of
              (DequeueWaits, s1) \<Rightarrow> (Sleeps, s1)
            | (DequeueBreaks, s1) \<Rightarrow> (Exit, s1)
            | (DequeuedNothing, s1) \<Rightarrow> (Continue, s1)
            | (DequeuedFrame frame, s1) \<Rightarrow> WorkerThread_process ProcessFrameImpl now frame s1))"

text \<open>
  The loop, run with no other thread in between, one clock reading per turn. It stops at
  the first turn that does not come back to the loop head; when the readings run out the
  worker is still in its loop (\<open>Continue\<close>).
\<close>

fun WorkerThread ::
  "(Frame \<Rightarrow> 'a Sink_scheme \<Rightarrow> hook_outcome \<times> 'a Sink_scheme) \<Rightarrow> int list \<Rightarrow>
     'a Sink_scheme \<Rightarrow> worker_step \<times> 'a Sink_scheme" where
  "WorkerThread ProcessFrameImpl [] s = (Continue, s)"
| "WorkerThread ProcessFrameImpl (now # later) s =
     (case WorkerThread_iteration ProcessFrameImpl now s of
        (Continue, s1) \<Rightarrow> WorkerThread ProcessFrameImpl later s1
      | (Exit, s1) \<Rightarrow> (Exit, s1)
      | (Sleeps, s1) \<Rightarrow> (Sleeps, s1)
      | (Terminate, s1) \<Rightarrow> (Terminate, s1))"

section \<open>Source base (video_source.h, video_source.cpp, timer.cpp)\<close>

text \<open>
  Readings of \<open>std::chrono::steady_clock\<close> are integers in nanoseconds.
  \<open>duration_cast<microseconds>\<close> truncates towards zero.
\<close>

definition duration_cast_us :: "int \<Rightarrow> int" where
  "duration_cast_us d = (if 0 \<le> d then d div 1000 else - ((- d) div 1000))"

text \<open>\<open>Timer::GetCurrentTimestampUs\<close>: the reading in microseconds, as a \<open>uint64_t\<close>.\<close>

definition GetCurrentTimestampUs :: "int \<Rightarrow> 64 word" where
  "GetCurrentTimestampUs now = word_of_int (duration_cast_us now)"

text \<open>
  On the source's side frames are shared objects: a \<open>VideoFramePtr\<close> is a
  \<open>std::shared_ptr\<close>, null or the address of a frame object that every holder of the
  pointer reads and that \<open>EmitFrame\<close> writes in place. The store gives the frame object
  at each address; a shared pointer keeps its object alive, so every address reads a
  frame.
\<close>

type_synonym frame_ptr = nat

type_synonym frame_store = "frame_ptr \<Rightarrow> Frame"

text \<open>
  \<open>BaseVideoSource\<close> extends the block. \<open>frame_callback\<close> says whether the
  \<open>std::function\<close> member \<open>frame_callback_\<close> holds a function. \<open>frame_rate\<close> is the
  \<open>double\<close> \<open>frame_rate_\<close>, of which only the sign is read here; \<open>frame_interval\<close> is in
  microseconds; \<open>source_last_frame_time\<close> is the member \<open>last_frame_time_\<close> of the source
  (the statistics have a \<open>last_frame_time\<close> of their own).
\<close>

record Source = Block +
  output_format :: FrameInfo
  frame_rate :: real
  buffer_count :: nat
  frame_callback :: bool
  source_last_frame_time :: int
  frame_interval :: int

text \<open>
  The function \<open>frame_callback_\<close> holds is code from outside the source. Called with a
  frame pointer it may read and change anything it can reach, the source that calls it,
  the frame objects and an outside world \<open>'w\<close> (the connected sink), and it returns or
  throws. It is a parameter of the functions that call it.
\<close>

datatype callback_outcome = CallbackReturns | CallbackThrows

type_synonym ('a, 'w) FrameCallback =
  "frame_ptr \<Rightarrow> 'a Source_scheme \<times> frame_store \<times> 'w \<Rightarrow>
     callback_outcome \<times> 'a Source_scheme \<times> frame_store \<times> 'w"

definition GetStats :: "'a Block_scheme \<Rightarrow> BlockStats" where
  "GetStats b = stats b"

definition ShouldEmitFrame :: "int \<Rightarrow> 'a Source_scheme \<Rightarrow> bool" where
  "ShouldEmitFrame now s =
     (if frame_rate s \<le> 0 then True
      else duration_cast_us (now - source_last_frame_time s) \<ge> frame_interval s)"

text \<open>
  \<open>EmitFrame\<close> reads the clock four times: in the gate, for the timestamp, inside
  \<open>UpdateStats\<close>, and for \<open>last_frame_time_\<close>.
\<close>

record EmitClock =
  t_gate :: int
  t_stamp :: int
  t_stats :: int
  t_last :: int

definition GetSize :: "Frame \<Rightarrow> 64 word" where
  "GetSize f = data_size f"

text \<open>How \<open>EmitFrame\<close> ends: it returns, or the callback's exception leaves it.\<close>

datatype emit_result = EmitReturns | EmitThrows

text \<open>
  \<open>BaseVideoSource::EmitFrame\<close>, on the source, the frame objects and the outside world.
  The frame object is stamped in place, the callback is called on the source as it is
  then, and \<open>UpdateStats\<close> and the assignment to \<open>last_frame_time_\<close> follow on what the
  callback has left, if it returns.
\<close>

definition EmitFrame ::
  "('a, 'w) FrameCallback \<Rightarrow> EmitClock \<Rightarrow> frame_ptr option \<Rightarrow>
     'a Source_scheme \<times> frame_store \<times> 'w \<Rightarrow> emit_result \<times> 'a Source_scheme \<times> frame_store \<times> 'w" where
  "EmitFrame callback clk frame x =
     (let (s, st, w) = x in
      case frame of
        None \<Rightarrow> (EmitReturns, s, st, w)
      | Some p \<Rightarrow>
          if \<not> frame_callback s then (EmitReturns, s, st, w)
          else if \<not> ShouldEmitFrame (t_gate clk) s
          then (EmitReturns, UpdateStats (t_gate clk) False 0 True s, st, w)
          else
            (let info = (frame_info (st p))\<lparr>timestamp_us := GetCurrentTimestampUs (t_stamp clk),
                                            sequence_number := frames_processed (GetStats s) + 1\<rparr>;
                 st1 = st(p := (st p)\<lparr>frame_info := info\<rparr>)
             in case callback p (s, st1, w) of
                  (CallbackThrows, s2, st2, w2) \<Rightarrow> (EmitThrows, s2, st2, w2)
                | (CallbackReturns, s2, st2, w2) \<Rightarrow>
                    (let s3 = UpdateStats (t_stats clk) True (GetSize (st2 p)) False s2
                     in (EmitReturns, s3\<lparr>source_last_frame_time := t_last clk\<rparr>, st2, w2))))"

text \<open>
  A sequence of \<open>EmitFrame\<close> calls by the producer thread, in order, up to the first call
  that an exception leaves.
\<close>

fun EmitFrames ::
  "('a, 'w) FrameCallback \<Rightarrow> (EmitClock \<times> frame_ptr option) list \<Rightarrow>
     'a Source_scheme \<times> frame_store \<times> 'w \<Rightarrow> emit_result \<times> 'a Source_scheme \<times> frame_store \<times> 'w" where
  "EmitFrames callback [] x = (EmitReturns, x)"
| "EmitFrames callback ((clk, frame) # calls) x =
     (case EmitFrame callback clk frame x of
        (EmitReturns, x1) \<Rightarrow> EmitFrames callback calls x1
      | (EmitThrows, x1) \<Rightarrow> (EmitThrows, x1))"

section \<open>Test pattern source (test_pattern_source.h, test_pattern_source.cpp)\<close>

datatype TestPattern = SOLID_COLOR | COLOR_BARS | CHECKERBOARD | GRADIENT | NOISE | MOVING_BOX

text \<open>
  \<open>generator_thread\<close> says whether \<open>generator_thread_\<close> is joinable. The random number
  generator is left out.
\<close>

record TestPatternSource = Source +
  test_pattern :: TestPattern
  color_r :: "8 word"
  color_g :: "8 word"
  color_b :: "8 word"
  generator_thread :: bool
  stop_generator :: bool
  frame_counter :: "32 word"

definition GetStateString :: "'a Block_scheme \<Rightarrow> string" where
  "GetStateString b =
     (case GetState b of
        UNINITIALIZED \<Rightarrow> ''UNINITIALIZED''
      | INITIALIZED \<Rightarrow> ''INITIALIZED''
      | STARTING \<Rightarrow> ''STARTING''
      | RUNNING \<Rightarrow> ''RUNNING''
      | STOPPING \<Rightarrow> ''STOPPING''
      | STOPPED \<Rightarrow> ''STOPPED''
      | ERROR \<Rightarrow> ''ERROR'')"

text \<open>
  A call that returns a value, or ends the process: assigning a new \<open>std::thread\<close> to a
  thread object that is still joinable calls \<open>std::terminate\<close>.
\<close>

datatype 'r call = Returns 'r | Terminates

definition TestPatternSource_Start ::
  "'a TestPatternSource_scheme \<Rightarrow> bool call \<times> 'a TestPatternSource_scheme" where
  "TestPatternSource_Start s =
     (if GetState s = RUNNING then (Returns True, s)
      else if GetState s \<noteq> INITIALIZED \<and> GetState s \<noteq> STOPPED
      then (Returns False, SetError (''Cannot start from state: '' @ GetStateString s) s)
      else
        (let s1 = SetState STARTING s;
             s2 = s1\<lparr>stop_generator := False, frame_counter := 0\<rparr>
         in if generator_thread s2 then (Terminates, s2)
            else (Returns True, SetState RUNNING (s2\<lparr>generator_thread := True\<rparr>))))"

text \<open>
  \<open>TestPatternSource::Stop\<close>. The join waits for the generator thread to leave its loop;
  the frames that thread emits belong to the run, before the call.
\<close>

definition TestPatternSource_Stop ::
  "'a TestPatternSource_scheme \<Rightarrow> bool \<times> 'a TestPatternSource_scheme" where
  "TestPatternSource_Stop s =
     (if GetState s \<noteq> RUNNING then (True, s)
      else
        (let s1 = SetState STOPPING s;
             s2 = s1\<lparr>stop_generator := True\<rparr>;
             s3 = (if generator_thread s2 then s2\<lparr>generator_thread := False\<rparr> else s2)
         in (True, SetState STOPPED s3)))"

definition TestPatternSource_Shutdown ::
  "'a TestPatternSource_scheme \<Rightarrow> bool \<times> 'a TestPatternSource_scheme" where
  "TestPatternSource_Shutdown s = (let (r, s1) = TestPatternSource_Stop s in (True, s1))"

text \<open>
  \<open>CreateVideoFrame\<close>: a null pointer for a size of zero or when the allocation throws
  (\<open>alloc\<close> is \<open>None\<close>); otherwise a new frame object of the format's size, at the
  address the allocator gives.
\<close>

definition CreateVideoFrame ::
  "frame_ptr option \<Rightarrow> FrameInfo \<Rightarrow> frame_store \<Rightarrow> frame_ptr option \<times> frame_store" where
  "CreateVideoFrame alloc info st =
     (let required_size = GetFrameSize info
      in if required_size = 0 then (None, st)
         else (case alloc of
                 None \<Rightarrow> (None, st)
               | Some p \<Rightarrow> (Some p, st(p := \<lparr>frame_info = info, data_size = GetFrameSize info\<rparr>))))"

text \<open>
  One turn of the loop of \<open>GeneratorThread\<close>. \<open>t_loop\<close> is the clock reading of the
  loop's own \<open>ShouldEmitFrame\<close> test; the pixels \<open>GenerateFrame\<close> writes are not part of
  the model. An exception that leaves \<open>EmitFrame\<close> leaves the thread function too.
\<close>

definition GeneratorThread_iteration ::
  "('a TestPatternSource_ext, 'w) FrameCallback \<Rightarrow> int \<Rightarrow> frame_ptr option \<Rightarrow> EmitClock \<Rightarrow>
     'a TestPatternSource_scheme \<times> frame_store \<times> 'w \<Rightarrow>
     worker_step \<times> 'a TestPatternSource_scheme \<times> frame_store \<times> 'w" where
  "GeneratorThread_iteration callback t_loop alloc clk x =
     (let (s, st, w) = x in
      if stop_generator s then (Exit, s, st, w)
      else if \<not> ShouldEmitFrame t_loop s then (Continue, s, st, w)
      else
        (case CreateVideoFrame alloc (output_format s) st of
           (None, st1) \<Rightarrow> (Exit, s, st1, w)
         | (Some frame, st1) \<Rightarrow>
             (case EmitFrame callback clk (Some frame) (s, st1, w) of
                (EmitReturns, s1, st2, w1) \<Rightarrow>
                  (Continue, s1\<lparr>frame_counter := frame_counter s1 + 1\<rparr>, st2, w1)
              | (EmitThrows, s1, st2, w1) \<Rightarrow> (Terminate, s1, st2, w1))))"

section \<open>Registry and pipeline manager (block_registry.cpp, pipeline_manager.cpp)\<close>

text \<open>
  A \<open>BlockFactory\<close> is a \<open>std::function<BlockPtr()>\<close>; what it does when called is one of:
  it makes a block, it returns a null pointer, it throws a \<open>std::exception\<close>.
\<close>

datatype 'b BlockFactory = Makes 'b | MakesNull | FactoryThrows string

type_synonym 'b BlockRegistry = "string \<rightharpoonup> 'b BlockFactory"

text \<open>\<open>BlockRegistry::CreateBlock(type)\<close>; \<open>None\<close> is the null \<open>BlockPtr\<close>.\<close>

definition CreateBlock :: "'b BlockRegistry \<Rightarrow> string \<Rightarrow> 'b option" where
  "CreateBlock factories ty =
     (case factories ty of
        None \<Rightarrow> None
      | Some (Makes block) \<Rightarrow> Some block
      | Some MakesNull \<Rightarrow> None
      | Some (FactoryThrows what) \<Rightarrow> None)"

definition SetName :: "string \<Rightarrow> 'a Block_scheme \<Rightarrow> 'a Block_scheme" where
  "SetName n b = b\<lparr>block_name := n\<rparr>"

text \<open>\<open>BlockRegistry::CreateBlock(type, name)\<close>.\<close>

definition CreateBlock_named :: "'a Block_scheme BlockRegistry \<Rightarrow> string \<Rightarrow> string \<Rightarrow> 'a Block_scheme option" where
  "CreateBlock_named factories ty n =
     (case CreateBlock factories ty of
        None \<Rightarrow> None
      | Some block \<Rightarrow> Some (SetName n block))"

record BlockDef =
  def_name :: string
  def_type :: string
  parameters :: BlockParams

record Connection =
  source_block :: string
  source_output :: string
  sink_block :: string
  sink_input :: string

text \<open>\<open>PipelineConfig\<close>; \<open>block_defs\<close> is its member \<open>blocks\<close>.\<close>

record PipelineConfig =
  pipeline_name :: string
  platform :: string
  block_defs :: "BlockDef list"
  connections :: "Connection list"
  settings :: "string \<rightharpoonup> string"

text \<open>
  \<open>PipelineManager\<close>. \<open>blocks\<close> is the map \<open>blocks_\<close> from names to the blocks the manager
  owns; \<open>manager_error_callback\<close> says whether the aggregate callback \<open>error_callback_\<close>
  holds a function, \<open>manager_last_error\<close> is the manager's \<open>last_error_\<close>.
\<close>

record 'b PipelineManager =
  config :: PipelineConfig
  blocks :: "string \<rightharpoonup> 'b"
  is_running :: bool
  manager_error_callback :: bool
  manager_last_error :: string

definition SetErrorCallback :: "bool \<Rightarrow> 'a Block_scheme \<Rightarrow> 'a Block_scheme" where
  "SetErrorCallback callback b = b\<lparr>error_callback := callback\<rparr>"

text \<open>The body of the loop of \<open>CreateBlocks\<close>, over the block definitions left.\<close>

fun CreateBlocks_loop ::
  "'a Block_scheme BlockRegistry \<Rightarrow> BlockDef list \<Rightarrow> 'a Block_scheme PipelineManager \<Rightarrow>
     bool \<times> 'a Block_scheme PipelineManager" where
  "CreateBlocks_loop registry [] m = (True, m)"
| "CreateBlocks_loop registry (block_def # rest) m =
     (case CreateBlock_named registry (def_type block_def) (def_name block_def) of
        None \<Rightarrow>
          (False, m\<lparr>manager_last_error :=
             ''Failed to create block '' @ [CHR 0x27] @ def_name block_def @ [CHR 0x27] @
             '' of type '' @ [CHR 0x27] @ def_type block_def @ [CHR 0x27]\<rparr>)
      | Some block \<Rightarrow>
          CreateBlocks_loop registry rest
            (m\<lparr>blocks := (blocks m)(def_name block_def \<mapsto>
                  SetErrorCallback (manager_error_callback m) block)\<rparr>))"

definition CreateBlocks ::
  "'a Block_scheme BlockRegistry \<Rightarrow> 'a Block_scheme PipelineManager \<Rightarrow>
     bool \<times> 'a Block_scheme PipelineManager" where
  "CreateBlocks registry m =
     CreateBlocks_loop registry (block_defs (config m)) (m\<lparr>blocks := Map.empty\<rparr>)"

text \<open>
  \<open>PipelineManager::Initialize\<close>. The two later passes, \<open>ConfigureBlocks\<close> and
  \<open>ConnectBlocks\<close>, are parameters: they run only after \<open>CreateBlocks\<close> has returned true.
\<close>

definition Initialize ::
  "'a Block_scheme BlockRegistry \<Rightarrow>
   ('a Block_scheme PipelineManager \<Rightarrow> bool \<times> 'a Block_scheme PipelineManager) \<Rightarrow>
   ('a Block_scheme PipelineManager \<Rightarrow> bool \<times> 'a Block_scheme PipelineManager) \<Rightarrow>
   PipelineConfig \<Rightarrow> 'a Block_scheme PipelineManager \<Rightarrow> bool \<times> 'a Block_scheme PipelineManager" where
  "Initialize registry ConfigureBlocks ConnectBlocks cfg m =
     (if is_running m
      then (False, m\<lparr>manager_last_error := ''Cannot initialize while pipeline is running''\<rparr>)
      else
        (let m1 = m\<lparr>config := cfg\<rparr> in
         case CreateBlocks registry m1 of
           (False, m2) \<Rightarrow> (False, m2)
         | (True, m2) \<Rightarrow>
             (case ConfigureBlocks m2 of
                (False, m3) \<Rightarrow> (False, m3)
              | (True, m3) \<Rightarrow>
                  (case ConnectBlocks m3 of
                     (False, m4) \<Rightarrow> (False, m4)
                   | (True, m4) \<Rightarrow> (True, m4)))))"

section \<open>Notions used in the statements\<close>

text \<open>The bound of the sink's queue: its depth is at most the configured maximum.\<close>

definition queue_bounded :: "'a Sink_scheme \<Rightarrow> bool" where
  "queue_bounded s = (GetQueueDepth s \<le> GetMaxQueueDepth s)"

text \<open>The sequence numbers of a list of delivered frames, in order of delivery.\<close>

definition sequence_numbers :: "Frame list \<Rightarrow> 64 word list" where
  "sequence_numbers fs = map (\<lambda>f. sequence_number (frame_info f)) fs"

text \<open>
  The store after \<open>EmitFrame\<close> has stamped the frame at \<open>p\<close>: the timestamp of the clock
  reading and the sequence number \<open>frames_processed + 1\<close> of the source as it is.
\<close>

definition stamped :: "EmitClock \<Rightarrow> 'a Source_scheme \<Rightarrow> frame_ptr \<Rightarrow> frame_store \<Rightarrow> frame_store" where
  "stamped clk s p st =
     st(p := (st p)\<lparr>frame_info := (frame_info (st p))
                 \<lparr>timestamp_us := GetCurrentTimestampUs (t_stamp clk),
                  sequence_number := frames_processed (stats s) + 1\<rparr>\<rparr>)"

text \<open>
  A callback, watched: the frame as it reads when the pointer is handed over is appended
  to a list kept beside the outside world, then the callback runs. The list is what the
  source has delivered, oldest first.
\<close>

definition observed :: "('a, 'w) FrameCallback \<Rightarrow> ('a, 'w \<times> Frame list) FrameCallback" where
  "observed callback p x =
     (let (s, st, w, delivered) = x in
      case callback p (s, st, w) of
        (r, s2, st2, w2) \<Rightarrow> (r, s2, st2, w2, delivered @ [st p]))"

definition delivered_frames :: "'r \<times> 's \<times> frame_store \<times> 'w \<times> Frame list \<Rightarrow> Frame list" where
  "delivered_frames x = snd (snd (snd (snd x)))"

text \<open>A callback that leaves the source's count of processed frames as it finds it.\<close>

definition keeps_frames_processed :: "('a, 'w) FrameCallback \<Rightarrow> bool" where
  "keeps_frames_processed callback =
     (\<forall>p s st w. frames_processed (stats (fst (snd (callback p (s, st, w))))) =
                  frames_processed (stats s))"

text \<open>
  The callback that takes the frame and returns, and the same watched: it records what it
  is handed.
\<close>

definition accept_frame :: "('a, 'w) FrameCallback" where
  "accept_frame p x = (CallbackReturns, x)"

definition record_frame :: "('a, 'w \<times> Frame list) FrameCallback" where
  "record_frame = observed accept_frame"

text \<open>The message \<open>CreateBlocks\<close> leaves in \<open>last_error_\<close> for a block definition.\<close>

definition create_failure_message :: "BlockDef \<Rightarrow> string" where
  "create_failure_message d =
     ''Failed to create block '' @ [CHR 0x27] @ def_name d @ [CHR 0x27] @
     '' of type '' @ [CHR 0x27] @ def_type d @ [CHR 0x27]"

section \<open>Concrete inputs\<close>

definition frame_info_vga :: FrameInfo where
  "frame_info_vga = \<lparr>width = 640, height = 480, stride = 1920, pixel_format = RGB24,
     timestamp_us = 0, sequence_number = 0, is_hardware_buffer = False, hw_handle = 0\<rparr>"

definition frame_info_wide :: FrameInfo where
  "frame_info_wide = \<lparr>width = 65536, height = 65537, stride = 0, pixel_format = RGB24,
     timestamp_us = 0, sequence_number = 0, is_hardware_buffer = False, hw_handle = 0\<rparr>"

definition stats_zero :: BlockStats where
  "stats_zero = \<lparr>frames_processed = 0, frames_dropped = 0, bytes_processed = 0,
     queue_depth = 0, last_frame_time = 0\<rparr>"

definition sink_initialized :: Sink where
  "sink_initialized = \<lparr>block_name = ''sink'', block_type = ''ConsoleSink'',
     state = INITIALIZED, last_error = [], error_callback = True, error_calls = [],
     params = Map.empty, stats = stats_zero, input_format = frame_info_vga,
     max_queue_depth = 10, is_blocking = True, frame_queue = [], stop_worker = False,
     queue_condition = 0, queue_not_full_condition = 0\<rparr>"

definition block_running :: Block where
  "block_running = \<lparr>block_name = ''src'', block_type = ''TestPatternSource'',
     state = RUNNING, last_error = [], error_callback = False, error_calls = [],
     params = Map.empty, stats = stats_zero\<rparr>"

definition test_frame :: "64 word \<Rightarrow> Frame" where
  "test_frame n = \<lparr>frame_info = frame_info_vga\<lparr>sequence_number := n\<rparr>, data_size = 921600\<rparr>"

definition sink_full_drop :: Sink where
  "sink_full_drop = sink_initialized\<lparr>state := RUNNING, max_queue_depth := 2, is_blocking := False,
     frame_queue := [test_frame 1, test_frame 2]\<rparr>"

definition sink_full_block :: Sink where
  "sink_full_block = sink_full_drop\<lparr>is_blocking := True\<rparr>"

definition source_initialized :: TestPatternSource where
  "source_initialized = \<lparr>block_name = ''src'', block_type = ''TestPatternSource'',
     state = INITIALIZED, last_error = [], error_callback = False, error_calls = [],
     params = Map.empty, stats = stats_zero, output_format = frame_info_vga,
     frame_rate = 30, buffer_count = 3, frame_callback = True,
     source_last_frame_time = 0, frame_interval = 33333,
     test_pattern = COLOR_BARS, color_r = 255, color_g = 255, color_b = 255,
     generator_thread = False, stop_generator = False, frame_counter = 0\<rparr>"

definition sink_three_queued :: Sink where
  "sink_three_queued = sink_initialized\<lparr>state := RUNNING, is_blocking := False,
     frame_queue := [test_frame 1, test_frame 2, test_frame 3]\<rparr>"

text \<open>
  A hook that throws a \<open>std::exception\<close> on the frame with sequence number 1 and
  succeeds on every other frame, leaving the sink as it is.
\<close>

definition first_frame_throws :: "Frame \<Rightarrow> Sink \<Rightarrow> hook_outcome \<times> Sink" where
  "first_frame_throws f s =
     (if sequence_number (frame_info f) = 1 then (HookThrows ''write failed'', s)
      else (HookReturns True, s))"

definition sink_two_queued :: Sink where
  "sink_two_queued = sink_initialized\<lparr>state := RUNNING,
     frame_queue := [test_frame 1, test_frame 2]\<rparr>"

text \<open>
  A running test pattern source at 30 frames per second with a callback installed, a
  store whose every address holds a 640 x 480 frame, clock readings for one \<open>EmitFrame\<close>
  call entered at time \<open>t\<close>, and three calls of which the second comes 10 ms after the
  first and is stopped by the gate.
\<close>

definition source_running :: TestPatternSource where
  "source_running = source_initialized\<lparr>state := RUNNING, generator_thread := True\<rparr>"

definition test_store :: frame_store where
  "test_store = (\<lambda>p. test_frame 0)"

definition clock_at :: "int \<Rightarrow> EmitClock" where
  "clock_at t = \<lparr>t_gate = t, t_stamp = t + 1000, t_stats = t + 2000, t_last = t + 3000\<rparr>"

definition three_calls :: "(EmitClock \<times> frame_ptr option) list" where
  "three_calls = [(clock_at 40000000, Some 0),
                  (clock_at 50000000, Some 1),
                  (clock_at 80000000, Some 2)]"

text \<open>
  Two callbacks that show what the source is when they are called: one appends the
  source's \<open>frames_processed\<close> to the outside world and returns, one does the same and
  throws.
\<close>

definition note_count :: "('a, 64 word list) FrameCallback" where
  "note_count p x = (let (s, st, w) = x in (CallbackReturns, s, st, w @ [frames_processed (stats s)]))"

definition note_count_and_throw :: "('a, 64 word list) FrameCallback" where
  "note_count_and_throw p x =
     (let (s, st, w) = x in (CallbackThrows, s, st, w @ [frames_processed (stats s)]))"

text \<open>Two calls that emit the same frame object.\<close>

definition same_frame_twice :: "(EmitClock \<times> frame_ptr option) list" where
  "same_frame_twice = [(clock_at 40000000, Some 0), (clock_at 80000000, Some 0)]"

text \<open>
  A run with a reset in it: one frame is emitted, \<open>ResetStats\<close> is called on the source,
  another frame is emitted.
\<close>

definition run_with_reset :: "emit_result \<times> TestPatternSource \<times> frame_store \<times> unit \<times> Frame list" where
  "run_with_reset =
     (case EmitFrame record_frame (clock_at 40000000) (Some 0) (source_running, test_store, (), []) of
        (r1, s1, st1, w1) \<Rightarrow>
          EmitFrame record_frame (clock_at 80000000) (Some 1) (ResetStats 60000000 s1, st1, w1))"

text \<open>The run of the scenario: start, one turn of the generator, stop, start, one turn.\<close>

definition first_run :: "worker_step \<times> TestPatternSource \<times> frame_store \<times> unit \<times> Frame list" where
  "first_run =
     (let (r1, s1) = TestPatternSource_Start source_initialized
      in GeneratorThread_iteration record_frame 40000000 (Some 0) (clock_at 40000000)
           (s1, test_store, (), []))"

definition second_run :: "worker_step \<times> TestPatternSource \<times> frame_store \<times> unit \<times> Frame list" where
  "second_run =
     (let (g1, s2, st2, w2) = first_run;
          (r3, s3) = TestPatternSource_Stop s2;
          (r4, s4) = TestPatternSource_Start s3
      in GeneratorThread_iteration record_frame 80000000 (Some 1) (clock_at 80000000)
           (s4, st2, (), []))"

definition first_run_of_three ::
  "emit_result \<times> TestPatternSource \<times> frame_store \<times> unit \<times> Frame list" where
  "first_run_of_three =
     EmitFrames record_frame three_calls
       (snd (TestPatternSource_Start source_initialized), test_store, (), [])"

definition source_after_first_run :: TestPatternSource where
  "source_after_first_run = fst (snd first_run_of_three)"

definition source_restarted :: TestPatternSource where
  "source_restarted =
     snd (TestPatternSource_Start (snd (TestPatternSource_Stop source_after_first_run)))"

text \<open>
  A registry that knows the type "TestPatternSource" only, a configuration of a source of
  that type followed by a sink of an unregistered type, a manager as constructed, and the
  \<open>Initialize\<close> call on them (the later passes are never reached; they are given as passes
  that succeed).
\<close>

definition block_fresh :: Block where
  "block_fresh = \<lparr>block_name = ''TestPatternSource'', block_type = ''TestPatternSource'',
     state = UNINITIALIZED, last_error = [], error_callback = False, error_calls = [],
     params = Map.empty, stats = stats_zero\<rparr>"

definition registry_source_only :: "Block BlockRegistry" where
  "registry_source_only = [''TestPatternSource'' \<mapsto> Makes block_fresh]"

definition config_two_blocks :: PipelineConfig where
  "config_two_blocks = \<lparr>pipeline_name = ''demo'', platform = ''generic'',
     block_defs = [\<lparr>def_name = ''src'', def_type = ''TestPatternSource'', parameters = Map.empty\<rparr>,
                   \<lparr>def_name = ''out'', def_type = ''NoSuchSink'', parameters = Map.empty\<rparr>],
     connections = [\<lparr>source_block = ''src'', source_output = ''output'',
                     sink_block = ''out'', sink_input = ''input''\<rparr>],
     settings = Map.empty\<rparr>"

definition manager_fresh :: "Block PipelineManager" where
  "manager_fresh = \<lparr>config = \<lparr>pipeline_name = [], platform = ''generic'', block_defs = [],
       connections = [], settings = Map.empty\<rparr>,
     blocks = Map.empty, is_running = False, manager_error_callback = True,
     manager_last_error = []\<rparr>"

definition pass_succeeds :: "Block PipelineManager \<Rightarrow> bool \<times> Block PipelineManager" where
  "pass_succeeds m = (True, m)"

definition failed_initialize :: "bool \<times> Block PipelineManager" where
  "failed_initialize =
     Initialize registry_source_only pass_succeeds pass_succeeds config_two_blocks manager_fresh"

section \<open>Helper lemmas\<close>

lemma unat_ucast_32_64: "unat (ucast (x :: 32 word) :: 64 word) = unat x"
  by transfer (simp add: take_bit_nat_eq_self_iff)

lemma to_string_0: "to_string 0 = ''0''"
  by (simp add: to_string.simps digit_char_def)

lemma to_string_1001: "to_string 1001 = ''1001''"
  by (simp add: to_string.simps digit_char_def)

section \<open>Frame size\<close>

lemma GetFrameSize_mod:
  "unat (GetFrameSize fi) =
     (case pixel_format fi of
        RGB24 \<Rightarrow> (unat (width fi) * unat (height fi) * 3) mod 2 ^ 32
      | BGR24 \<Rightarrow> (unat (width fi) * unat (height fi) * 3) mod 2 ^ 32
      | RGBA32 \<Rightarrow> (unat (width fi) * unat (height fi) * 4) mod 2 ^ 32
      | BGRA32 \<Rightarrow> (unat (width fi) * unat (height fi) * 4) mod 2 ^ 32
      | YUV420P \<Rightarrow> ((unat (width fi) * unat (height fi) * 3) mod 2 ^ 32) div 2
      | NV12 \<Rightarrow> ((unat (width fi) * unat (height fi) * 3) mod 2 ^ 32) div 2
      | NV21 \<Rightarrow> ((unat (width fi) * unat (height fi) * 3) mod 2 ^ 32) div 2
      | YUYV \<Rightarrow> (unat (width fi) * unat (height fi) * 2) mod 2 ^ 32
      | UYVY \<Rightarrow> (unat (width fi) * unat (height fi) * 2) mod 2 ^ 32
      | UNKNOWN \<Rightarrow> 0)"
  by (cases "pixel_format fi")
     (simp_all add: GetFrameSize_def unat_ucast_32_64 unat_word_ariths unat_div mod_simps)

lemma GetFrameSize_exact:
  assumes "unat (width fi) * unat (height fi) * 4 < 2 ^ 32"
  shows "unat (GetFrameSize fi) =
     (case pixel_format fi of
        RGB24 \<Rightarrow> unat (width fi) * unat (height fi) * 3
      | BGR24 \<Rightarrow> unat (width fi) * unat (height fi) * 3
      | RGBA32 \<Rightarrow> unat (width fi) * unat (height fi) * 4
      | BGRA32 \<Rightarrow> unat (width fi) * unat (height fi) * 4
      | YUV420P \<Rightarrow> unat (width fi) * unat (height fi) * 3 div 2
      | NV12 \<Rightarrow> unat (width fi) * unat (height fi) * 3 div 2
      | NV21 \<Rightarrow> unat (width fi) * unat (height fi) * 3 div 2
      | YUYV \<Rightarrow> unat (width fi) * unat (height fi) * 2
      | UYVY \<Rightarrow> unat (width fi) * unat (height fi) * 2
      | UNKNOWN \<Rightarrow> 0)"
proof -
  define p where "p = unat (width fi) * unat (height fi)"
  from assms have "p * 4 < 2 ^ 32" by (simp add: p_def)
  then have "p * 3 < 2 ^ 32" "p * 2 < 2 ^ 32" by arith+
  with \<open>p * 4 < 2 ^ 32\<close>
  have "(p * 3) mod 2 ^ 32 = p * 3" "(p * 2) mod 2 ^ 32 = p * 2" "(p * 4) mod 2 ^ 32 = p * 4"
    by simp_all
  then show ?thesis
    unfolding GetFrameSize_mod p_def by (simp split: PixelFormat.splits)
qed

text \<open>
  C9. \<open>GetFrameSize\<close> depends on the pixel format, the width and the height only, and
  the size a frame needs is \<open>w * h * 3\<close> bytes for RGB24 and BGR24, \<open>w * h * 4\<close> for RGBA32
  and BGRA32, \<open>w * h * 3 / 2\<close> for YUV420P, NV12 and NV21, \<open>w * h * 2\<close> for YUYV and UYVY.
  The code returns these sizes as long as \<open>w * h * 4\<close> stays below \<open>2^32\<close>
  (\<open>GetFrameSize_exact\<close>), and it does not where the product leaves 32 bits, since it is
  formed in \<open>uint32_t\<close> before it is widened to the \<open>size_t\<close> returned. For a
  65536 x 65537 RGB24 format, which a source takes unchecked from its parameters,
  \<open>w * h * 3\<close> is 12885098496 and \<open>GetFrameSize\<close> returns 196608; \<open>CreateVideoFrame\<close>
  then makes a frame object of 196608 bytes for it.
\<close>

theorem GetFrameSize_wraps_at_wide_frame:
  "pixel_format frame_info_wide = RGB24 \<and>
   unat (width frame_info_wide) * unat (height frame_info_wide) * 3 = 12885098496 \<and>
   unat (GetFrameSize frame_info_wide) = 196608 \<and>
   unat (GetFrameSize frame_info_wide) \<noteq>
     unat (width frame_info_wide) * unat (height frame_info_wide) * 3 \<and>
   fst (CreateVideoFrame (Some 0) frame_info_wide test_store) = Some 0 \<and>
   unat (data_size (snd (CreateVideoFrame (Some 0) frame_info_wide test_store) 0)) = 196608"
  by (simp add: GetFrameSize_def CreateVideoFrame_def frame_info_wide_def Let_def)

section \<open>Parameters\<close>

text \<open>
  C10. For every key, value and block (whatever its state, \<open>RUNNING\<close> included),
  \<open>SetParameter\<close> returns true, a following \<open>GetParameter\<close> of the key returns the value,
  and the block's state is not consulted or changed.
\<close>

theorem SetParameter_always_accepts:
  "fst (SetParameter key val b) = True \<and>
   GetParameter key (snd (SetParameter key val b)) = val \<and>
   state (snd (SetParameter key val b)) = state b"
  by (simp add: SetParameter_def GetParameter_def)

theorem SetParameter_always_accepts_witness:
  "state block_running = RUNNING \<and>
   fst (SetParameter ''width'' ''1280'' block_running) = True \<and>
   GetParameter ''width'' (snd (SetParameter ''width'' ''1280'' block_running)) = ''1280'' \<and>
   state (snd (SetParameter ''width'' ''1280'' block_running)) = RUNNING"
  using SetParameter_always_accepts [of "''width''" "''1280''" block_running]
  by (simp add: block_running_def)

section \<open>Queue depth bounds\<close>

text \<open>
  C8 (as amended). For \<open>depth = 0\<close> or \<open>depth > 1000\<close>, \<open>SetMaxQueueDepth\<close> returns false
  and leaves the configured maximum (and the queue, the mode, the parameters and the
  statistics) as they were, but it reports through \<open>SetError\<close>: the block's state becomes
  \<open>ERROR\<close>, \<open>last_error\<close> is the message "Invalid queue depth: n", and the error callback,
  when one is installed, is invoked with it. For \<open>1 \<le> depth \<le> 1000\<close> it returns true and
  changes the maximum only.
\<close>

theorem SetMaxQueueDepth_bounds:
  "(depth = 0 \<or> depth > 1000 \<longrightarrow>
      fst (SetMaxQueueDepth depth s) = False \<and>
      max_queue_depth (snd (SetMaxQueueDepth depth s)) = max_queue_depth s \<and>
      state (snd (SetMaxQueueDepth depth s)) = ERROR \<and>
      last_error (snd (SetMaxQueueDepth depth s)) = ''Invalid queue depth: '' @ to_string depth \<and>
      error_calls (snd (SetMaxQueueDepth depth s)) =
        (if error_callback s then error_calls s @ [''Invalid queue depth: '' @ to_string depth]
         else error_calls s) \<and>
      snd (SetMaxQueueDepth depth s) =
        s\<lparr>state := ERROR, last_error := last_error (snd (SetMaxQueueDepth depth s)),
          error_calls := error_calls (snd (SetMaxQueueDepth depth s))\<rparr>) \<and>
   (1 \<le> depth \<and> depth \<le> 1000 \<longrightarrow>
      SetMaxQueueDepth depth s = (True, s\<lparr>max_queue_depth := depth\<rparr>))"
  by (auto simp: SetMaxQueueDepth_def SetError_def SetState_def Let_def)

theorem SetMaxQueueDepth_bounds_witness:
  "fst (SetMaxQueueDepth 1001 sink_initialized) = False \<and>
   max_queue_depth (snd (SetMaxQueueDepth 1001 sink_initialized)) = 10 \<and>
   state (snd (SetMaxQueueDepth 1001 sink_initialized)) = ERROR \<and>
   last_error (snd (SetMaxQueueDepth 1001 sink_initialized)) = ''Invalid queue depth: 1001'' \<and>
   error_calls (snd (SetMaxQueueDepth 1001 sink_initialized)) = [''Invalid queue depth: 1001''] \<and>
   SetMaxQueueDepth 1000 sink_initialized = (True, sink_initialized\<lparr>max_queue_depth := 1000\<rparr>)"
  using SetMaxQueueDepth_bounds [of 1001 sink_initialized]
        SetMaxQueueDepth_bounds [of 1000 sink_initialized]
  by (simp add: sink_initialized_def to_string_1001)

text \<open>
  C8 as stated fails: rejecting depth 0 on an \<open>INITIALIZED\<close> sink moves it to \<open>ERROR\<close>.
\<close>

theorem SetMaxQueueDepth_state_counterexample:
  "fst (SetMaxQueueDepth 0 sink_initialized) = False \<and>
   state sink_initialized = INITIALIZED \<and>
   state (snd (SetMaxQueueDepth 0 sink_initialized)) = ERROR \<and>
   last_error sink_initialized = [] \<and>
   last_error (snd (SetMaxQueueDepth 0 sink_initialized)) = ''Invalid queue depth: 0''"
  by (simp add: SetMaxQueueDepth_def SetError_def SetState_def sink_initialized_def to_string_0)

section \<open>Submitting a frame to a sink\<close>

lemma ProcessFrame_push_eq:
  "ProcessFrame_push f k =
     (Returned True,
      k\<lparr>frame_queue := frame_queue k @ [f],
        stats := (stats k)\<lparr>queue_depth := of_nat (length (frame_queue k @ [f]))\<rparr>,
        queue_condition := queue_condition k + 1\<rparr>)"
  by (simp add: ProcessFrame_push_def Let_def)

lemma ProcessFrame_not_running:
  "GetState s \<noteq> RUNNING \<Longrightarrow> ProcessFrame now frame s = (Returned False, s)"
  by (simp add: ProcessFrame_def split: option.splits)

lemma ProcessFrame_drop_oldest:
  assumes "GetState s = RUNNING" "max_queue_depth s \<le> length (frame_queue s)"
    "\<not> is_blocking s" "0 < max_queue_depth s"
  shows "ProcessFrame now (Some f) s =
        (Returned True,
         s\<lparr>frame_queue := tl (frame_queue s) @ [f],
           stats := (stats s)\<lparr>frames_dropped := frames_dropped (stats s) + 1,
                              queue_depth := of_nat (length (tl (frame_queue s) @ [f]))\<rparr>,
           queue_condition := queue_condition s + 1\<rparr>)"
proof -
  from assms obtain oldest rest where q: "frame_queue s = oldest # rest"
    by (cases "frame_queue s") auto
  show ?thesis
    using assms q
    by (simp add: ProcessFrame_def ProcessFrame_push_def UpdateStats_def Let_def)
qed

lemma ProcessFrame_blocking:
  "GetState s = RUNNING \<Longrightarrow> max_queue_depth s \<le> length (frame_queue s) \<Longrightarrow> is_blocking s \<Longrightarrow>
     ProcessFrame now (Some f) s = ProcessFrame_wait f s"
  by (simp add: ProcessFrame_def)

lemma ProcessFrame_space:
  "GetState s = RUNNING \<Longrightarrow> length (frame_queue s) < max_queue_depth s \<Longrightarrow>
     ProcessFrame now (Some f) s = ProcessFrame_push f s"
  by (simp add: ProcessFrame_def)

lemma ProcessFrame_wait_cases:
  "(max_queue_depth k \<le> length (frame_queue k) \<and> \<not> stop_worker k \<longrightarrow>
      ProcessFrame_wait f k = (Waiting, k)) \<and>
   (stop_worker k \<longrightarrow> ProcessFrame_wait f k = (Returned False, k)) \<and>
   (length (frame_queue k) < max_queue_depth k \<and> \<not> stop_worker k \<longrightarrow>
      ProcessFrame_wait f k = ProcessFrame_push f k)"
  by (simp add: ProcessFrame_wait_def)

lemma ProcessFrame_push_enqueued:
  "ProcessFrame_push f s = (r, s') \<Longrightarrow>
     r = Returned True \<and> frame_queue s' \<noteq> [] \<and> last (frame_queue s') = f \<and>
     queue_depth (stats s') = of_nat (length (frame_queue s')) \<and>
     queue_condition s' = queue_condition s + 1"
  by (auto simp: ProcessFrame_push_def Let_def)

lemma ProcessFrame_wait_enqueued:
  "ProcessFrame_wait f s = (Returned True, s') \<Longrightarrow>
     frame_queue s' \<noteq> [] \<and> last (frame_queue s') = f \<and>
     queue_depth (stats s') = of_nat (length (frame_queue s')) \<and>
     queue_condition s' = queue_condition s + 1"
  by (auto simp: ProcessFrame_wait_def split: if_splits dest: ProcessFrame_push_enqueued)

lemma ProcessFrame_enqueued:
  assumes "ProcessFrame now frame s = (Returned True, s')"
  shows "frame \<noteq> None \<and> frame_queue s' \<noteq> [] \<and> Some (last (frame_queue s')) = frame \<and>
      queue_depth (stats s') = of_nat (length (frame_queue s')) \<and>
      queue_condition s' = queue_condition s + 1"
proof (cases frame)
  case None
  with assms show ?thesis by (simp add: ProcessFrame_def)
next
  case (Some f)
  show ?thesis
  proof (cases "GetState s = RUNNING")
    case False
    with assms Some show ?thesis by (simp add: ProcessFrame_def)
  next
    case True
    show ?thesis
    proof (cases "max_queue_depth s \<le> length (frame_queue s)")
      case False
      with assms Some True have "ProcessFrame_push f s = (Returned True, s')"
        by (simp add: ProcessFrame_def)
      from ProcessFrame_push_enqueued [OF this] Some show ?thesis by simp
    next
      case full: True
      show ?thesis
      proof (cases "is_blocking s")
        case True
        with assms Some \<open>GetState s = RUNNING\<close> full
        have "ProcessFrame_wait f s = (Returned True, s')"
          by (simp add: ProcessFrame_def)
        from ProcessFrame_wait_enqueued [OF this] Some show ?thesis by simp
      next
        case False
        show ?thesis
        proof (cases "frame_queue s")
          case Nil
          with assms Some \<open>GetState s = RUNNING\<close> full False show ?thesis
            by (simp add: ProcessFrame_def)
        next
          case (Cons oldest rest)
          with assms Some \<open>GetState s = RUNNING\<close> full False
          have "ProcessFrame_push f (UpdateStats now False 0 True (s\<lparr>frame_queue := rest\<rparr>)) =
                  (Returned True, s')"
            by (simp add: ProcessFrame_def)
          from ProcessFrame_push_enqueued [OF this] Some show ?thesis
            by (simp add: UpdateStats_def Let_def)
        qed
      qed
    qed
  qed
qed

text \<open>
  C1. \<open>ProcessFrame\<close> on a sink that is not \<open>RUNNING\<close> returns false and changes nothing.
  On a running sink whose queue is full (size at least the maximum, which is at least 1):
  in non-blocking mode the oldest frame is removed, \<open>frames_dropped\<close> goes up by one and the
  new frame is enqueued; in blocking mode the call is the wait on \<open>not_full\<close>, which stays
  asleep while the queue is full and stop is not signalled, returns false without
  enqueuing once stop is signalled, and enqueues once there is room. Every enqueue
  (\<open>ProcessFrame_push\<close>) appends the frame, sets \<open>queue_depth\<close> to the new size, notifies
  \<open>not_empty\<close> and returns true; and whenever \<open>ProcessFrame\<close> returns true the frame is the
  last of the queue, \<open>queue_depth\<close> is the queue's size and \<open>not_empty\<close> has been notified
  once.
\<close>

theorem ProcessFrame_submit:
  "(GetState s \<noteq> RUNNING \<longrightarrow> ProcessFrame now frame s = (Returned False, s)) \<and>
   (GetState s = RUNNING \<and> max_queue_depth s \<le> length (frame_queue s) \<and> \<not> is_blocking s \<and>
    0 < max_queue_depth s \<longrightarrow>
      ProcessFrame now (Some f) s =
        (Returned True,
         s\<lparr>frame_queue := tl (frame_queue s) @ [f],
           stats := (stats s)\<lparr>frames_dropped := frames_dropped (stats s) + 1,
                              queue_depth := of_nat (length (tl (frame_queue s) @ [f]))\<rparr>,
           queue_condition := queue_condition s + 1\<rparr>)) \<and>
   (GetState s = RUNNING \<and> max_queue_depth s \<le> length (frame_queue s) \<and> is_blocking s \<longrightarrow>
      ProcessFrame now (Some f) s = ProcessFrame_wait f s) \<and>
   (max_queue_depth k \<le> length (frame_queue k) \<and> \<not> stop_worker k \<longrightarrow>
      ProcessFrame_wait f k = (Waiting, k)) \<and>
   (stop_worker k \<longrightarrow> ProcessFrame_wait f k = (Returned False, k)) \<and>
   (length (frame_queue k) < max_queue_depth k \<and> \<not> stop_worker k \<longrightarrow>
      ProcessFrame_wait f k = ProcessFrame_push f k) \<and>
   (GetState s = RUNNING \<and> length (frame_queue s) < max_queue_depth s \<longrightarrow>
      ProcessFrame now (Some f) s = ProcessFrame_push f s) \<and>
   ProcessFrame_push f k =
     (Returned True,
      k\<lparr>frame_queue := frame_queue k @ [f],
        stats := (stats k)\<lparr>queue_depth := of_nat (length (frame_queue k @ [f]))\<rparr>,
        queue_condition := queue_condition k + 1\<rparr>) \<and>
   (ProcessFrame now frame s = (Returned True, s') \<longrightarrow>
      frame \<noteq> None \<and> frame_queue s' \<noteq> [] \<and> Some (last (frame_queue s')) = frame \<and>
      queue_depth (stats s') = of_nat (length (frame_queue s')) \<and>
      queue_condition s' = queue_condition s + 1)"
  using ProcessFrame_not_running [of s now frame]
        ProcessFrame_drop_oldest [of s now f]
        ProcessFrame_blocking [of s now f]
        ProcessFrame_space [of s now f]
        ProcessFrame_wait_cases [of k f]
        ProcessFrame_push_eq [of f k]
        ProcessFrame_enqueued [of now frame s s']
  by blast

text \<open>
  The cases on concrete sinks: one not running, one full and non-blocking, one full and
  blocking, the same woken by stop, the same woken with room, and one running with room.
\<close>

theorem ProcessFrame_submit_witness:
  "ProcessFrame 0 (Some (test_frame 3)) sink_initialized = (Returned False, sink_initialized) \<and>
   ProcessFrame 0 (Some (test_frame 3)) sink_full_drop =
     (Returned True,
      sink_full_drop\<lparr>frame_queue := [test_frame 2, test_frame 3],
        stats := stats_zero\<lparr>frames_dropped := 1, queue_depth := 2\<rparr>,
        queue_condition := 1\<rparr>) \<and>
   ProcessFrame 0 (Some (test_frame 3)) sink_full_block = (Waiting, sink_full_block) \<and>
   ProcessFrame_wait (test_frame 3) (sink_full_block\<lparr>stop_worker := True\<rparr>) =
     (Returned False, sink_full_block\<lparr>stop_worker := True\<rparr>) \<and>
   ProcessFrame_wait (test_frame 3) (sink_full_block\<lparr>frame_queue := [test_frame 2]\<rparr>) =
     (Returned True,
      sink_full_block\<lparr>frame_queue := [test_frame 2, test_frame 3],
        stats := stats_zero\<lparr>queue_depth := 2\<rparr>, queue_condition := 1\<rparr>) \<and>
   ProcessFrame 0 (Some (test_frame 3)) sink_two_queued =
     (Returned True,
      sink_two_queued\<lparr>frame_queue := [test_frame 1, test_frame 2, test_frame 3],
        stats := stats_zero\<lparr>queue_depth := 3\<rparr>, queue_condition := 1\<rparr>) \<and>
   last (frame_queue (snd (ProcessFrame 0 (Some (test_frame 3)) sink_full_drop))) = test_frame 3 \<and>
   queue_depth (stats (snd (ProcessFrame 0 (Some (test_frame 3)) sink_full_drop))) = 2 \<and>
   queue_condition (snd (ProcessFrame 0 (Some (test_frame 3)) sink_full_drop)) = 1"
proof -
  note a = ProcessFrame_submit [of sink_initialized 0 "Some (test_frame 3)" "test_frame 3"
          sink_full_block sink_initialized]
  note b = ProcessFrame_submit [of sink_full_drop 0 "Some (test_frame 3)" "test_frame 3"
          "sink_full_block\<lparr>stop_worker := True\<rparr>"
          "snd (ProcessFrame 0 (Some (test_frame 3)) sink_full_drop)"]
  note c = ProcessFrame_submit [of sink_full_block 0 "Some (test_frame 3)" "test_frame 3"
          "sink_full_block\<lparr>frame_queue := [test_frame 2]\<rparr>" sink_full_block]
  note d = ProcessFrame_submit [of sink_two_queued 0 "Some (test_frame 3)" "test_frame 3"
          sink_two_queued sink_two_queued]
  have drop: "ProcessFrame 0 (Some (test_frame 3)) sink_full_drop =
     (Returned True,
      sink_full_drop\<lparr>frame_queue := [test_frame 2, test_frame 3],
        stats := stats_zero\<lparr>frames_dropped := 1, queue_depth := 2\<rparr>,
        queue_condition := 1\<rparr>)"
    using b by (simp add: sink_full_drop_def sink_initialized_def GetState_def stats_zero_def)
  then have ret: "ProcessFrame 0 (Some (test_frame 3)) sink_full_drop =
     (Returned True, snd (ProcessFrame 0 (Some (test_frame 3)) sink_full_drop))"
    by simp
  from b ret have enq:
    "last (frame_queue (snd (ProcessFrame 0 (Some (test_frame 3)) sink_full_drop))) = test_frame 3 \<and>
     queue_depth (stats (snd (ProcessFrame 0 (Some (test_frame 3)) sink_full_drop))) =
       of_nat (length (frame_queue (snd (ProcessFrame 0 (Some (test_frame 3)) sink_full_drop)))) \<and>
     queue_condition (snd (ProcessFrame 0 (Some (test_frame 3)) sink_full_drop)) =
       queue_condition sink_full_drop + 1"
    by simp
  have rest: "ProcessFrame 0 (Some (test_frame 3)) sink_initialized = (Returned False, sink_initialized) \<and>
   ProcessFrame 0 (Some (test_frame 3)) sink_full_block = (Waiting, sink_full_block) \<and>
   ProcessFrame_wait (test_frame 3) (sink_full_block\<lparr>stop_worker := True\<rparr>) =
     (Returned False, sink_full_block\<lparr>stop_worker := True\<rparr>) \<and>
   ProcessFrame_wait (test_frame 3) (sink_full_block\<lparr>frame_queue := [test_frame 2]\<rparr>) =
     (Returned True,
      sink_full_block\<lparr>frame_queue := [test_frame 2, test_frame 3],
        stats := stats_zero\<lparr>queue_depth := 2\<rparr>, queue_condition := 1\<rparr>) \<and>
   ProcessFrame 0 (Some (test_frame 3)) sink_two_queued =
     (Returned True,
      sink_two_queued\<lparr>frame_queue := [test_frame 1, test_frame 2, test_frame 3],
        stats := stats_zero\<lparr>queue_depth := 3\<rparr>, queue_condition := 1\<rparr>)"
    using a b c d
    by (simp add: sink_full_block_def sink_full_drop_def sink_two_queued_def sink_initialized_def
          GetState_def stats_zero_def)
  from enq have enq': 
    "last (frame_queue (snd (ProcessFrame 0 (Some (test_frame 3)) sink_full_drop))) = test_frame 3 \<and>
     queue_depth (stats (snd (ProcessFrame 0 (Some (test_frame 3)) sink_full_drop))) = 2 \<and>
     queue_condition (snd (ProcessFrame 0 (Some (test_frame 3)) sink_full_drop)) = 1"
    unfolding drop by (simp add: sink_full_drop_def sink_initialized_def)
  from drop rest enq' show ?thesis by blast
qed

section \<open>Shutdown\<close>

lemma Stop_not_running: "GetState s \<noteq> RUNNING \<Longrightarrow> Stop s = (True, s)"
  by (simp add: Stop_def)

lemma Stop_running: "GetState s = RUNNING \<Longrightarrow> fst (Stop s) = True \<and> state (snd (Stop s)) = STOPPED"
  by (simp add: Stop_def Stop_drain_def Stop_signal_def SetState_def Let_def)

lemma TestPatternSource_Stop_not_running:
  "GetState t \<noteq> RUNNING \<Longrightarrow> TestPatternSource_Stop t = (True, t)"
  by (simp add: TestPatternSource_Stop_def)

lemma TestPatternSource_Stop_running:
  "GetState t = RUNNING \<Longrightarrow>
     fst (TestPatternSource_Stop t) = True \<and> state (snd (TestPatternSource_Stop t)) = STOPPED"
  by (simp add: TestPatternSource_Stop_def SetState_def Let_def)

text \<open>
  C3 (as amended). \<open>Shutdown\<close> of the sink base and of the test pattern source calls
  \<open>Stop\<close> and returns true. On a block that is not \<open>RUNNING\<close> it changes nothing, so the
  state after it is the state before it; on a \<open>RUNNING\<close> block it ends in \<open>STOPPED\<close>.
\<close>

theorem Shutdown_keeps_state:
  "(GetState s \<noteq> RUNNING \<longrightarrow> Shutdown s = (True, s)) \<and>
   (GetState s = RUNNING \<longrightarrow> fst (Shutdown s) = True \<and> GetState (snd (Shutdown s)) = STOPPED) \<and>
   (GetState t \<noteq> RUNNING \<longrightarrow> TestPatternSource_Shutdown t = (True, t)) \<and>
   (GetState t = RUNNING \<longrightarrow>
      fst (TestPatternSource_Shutdown t) = True \<and>
      GetState (snd (TestPatternSource_Shutdown t)) = STOPPED)"
  using Stop_not_running [of s] Stop_running [of s]
        TestPatternSource_Stop_not_running [of t] TestPatternSource_Stop_running [of t]
  by (auto simp: Shutdown_def TestPatternSource_Shutdown_def GetState_def split: prod.splits)

theorem Shutdown_keeps_state_witness:
  "Shutdown sink_initialized = (True, sink_initialized) \<and>
   GetState (snd (Shutdown sink_full_drop)) = STOPPED \<and>
   TestPatternSource_Shutdown source_initialized = (True, source_initialized) \<and>
   GetState (snd (TestPatternSource_Shutdown (source_initialized\<lparr>state := RUNNING\<rparr>))) = STOPPED"
  using Shutdown_keeps_state [of sink_initialized source_initialized]
        Shutdown_keeps_state [of sink_full_drop "source_initialized\<lparr>state := RUNNING\<rparr>"]
  by (simp add: sink_initialized_def sink_full_drop_def source_initialized_def GetState_def)

text \<open>
  C3 as stated fails: an \<open>INITIALIZED\<close> sink, and an \<open>INITIALIZED\<close> test pattern source,
  are still \<open>INITIALIZED\<close> after \<open>Shutdown\<close>, not \<open>UNINITIALIZED\<close>.
\<close>

theorem Shutdown_not_uninitialized_counterexample:
  "GetState sink_initialized = INITIALIZED \<and>
   GetState (snd (Shutdown sink_initialized)) = INITIALIZED \<and>
   GetState (snd (Shutdown sink_initialized)) \<noteq> UNINITIALIZED \<and>
   GetState source_initialized = INITIALIZED \<and>
   GetState (snd (TestPatternSource_Shutdown source_initialized)) = INITIALIZED \<and>
   GetState (snd (TestPatternSource_Shutdown source_initialized)) \<noteq> UNINITIALIZED"
  by (simp add: Shutdown_def Stop_def TestPatternSource_Shutdown_def TestPatternSource_Stop_def
        GetState_def sink_initialized_def source_initialized_def)

section \<open>The queue depth bound\<close>

lemma queue_bounded_push:
  "length (frame_queue s) < max_queue_depth s \<Longrightarrow> queue_bounded (snd (ProcessFrame_push f s))"
  by (simp add: queue_bounded_def GetQueueDepth_def GetMaxQueueDepth_def ProcessFrame_push_def Let_def)

lemma queue_bounded_wait:
  "queue_bounded s \<Longrightarrow> queue_bounded (snd (ProcessFrame_wait f s))"
  by (auto simp: ProcessFrame_wait_def queue_bounded_push)

lemma queue_bounded_ProcessFrame:
  assumes "queue_bounded s"
  shows "queue_bounded (snd (ProcessFrame now frame s))"
proof (cases frame)
  case None
  with assms show ?thesis by (simp add: ProcessFrame_def)
next
  case (Some f)
  show ?thesis
  proof (cases "frame_queue s")
    case Nil
    with assms Some show ?thesis
      by (auto simp: ProcessFrame_def queue_bounded_push queue_bounded_wait)
  next
    case (Cons oldest rest)
    have "length (frame_queue (UpdateStats now False 0 True (s\<lparr>frame_queue := rest\<rparr>)))
            < max_queue_depth (UpdateStats now False 0 True (s\<lparr>frame_queue := rest\<rparr>))"
      using assms Cons
      by (simp add: UpdateStats_def Let_def queue_bounded_def GetQueueDepth_def GetMaxQueueDepth_def)
    from queue_bounded_push [OF this] assms Some Cons show ?thesis
      by (auto simp: ProcessFrame_def queue_bounded_push queue_bounded_wait)
  qed
qed

lemma queue_bounded_dequeue:
  "queue_bounded s \<Longrightarrow> queue_bounded (snd (WorkerThread_dequeue s))"
  by (auto simp: WorkerThread_dequeue_def queue_bounded_def GetQueueDepth_def GetMaxQueueDepth_def
        Let_def split: list.splits)

lemma queue_bounded_Stop:
  "queue_bounded (snd (Stop s)) \<or> \<not> queue_bounded s"
  by (auto simp: Stop_def Stop_drain_def Stop_signal_def SetState_def queue_bounded_def
        GetQueueDepth_def GetMaxQueueDepth_def Let_def)

lemma queue_bounded_SetMaxQueueDepth:
  "queue_bounded s \<Longrightarrow> depth = 0 \<or> depth > 1000 \<or> GetQueueDepth s \<le> depth \<Longrightarrow>
     queue_bounded (snd (SetMaxQueueDepth depth s))"
  by (auto simp: SetMaxQueueDepth_def SetError_def SetState_def queue_bounded_def
        GetQueueDepth_def GetMaxQueueDepth_def Let_def)

lemma queue_unbounded_SetMaxQueueDepth:
  "1 \<le> depth \<Longrightarrow> depth \<le> 1000 \<Longrightarrow> depth < GetQueueDepth s \<Longrightarrow>
     fst (SetMaxQueueDepth depth s) = True \<and> \<not> queue_bounded (snd (SetMaxQueueDepth depth s))"
  by (auto simp: SetMaxQueueDepth_def queue_bounded_def GetQueueDepth_def GetMaxQueueDepth_def)

text \<open>
  C7 (as amended). On a sink whose queue depth is at most its maximum, the bound still
  holds after a submit (\<open>ProcessFrame\<close>, in either mode), after a wake-up of a blocked
  submit (\<open>ProcessFrame_wait\<close>), after the worker's dequeue, after \<open>Stop\<close>, and after
  \<open>SetMaxQueueDepth depth\<close> when the call is rejected or \<open>depth\<close> is at least the current
  queue depth. A successful \<open>SetMaxQueueDepth depth\<close> with \<open>depth\<close> below the current queue
  depth leaves the queue deeper than the maximum: the queue is not trimmed.
\<close>

theorem queue_depth_bound_preserved:
  "queue_bounded s \<longrightarrow>
     queue_bounded (snd (ProcessFrame now frame s)) \<and>
     queue_bounded (snd (ProcessFrame_wait f s)) \<and>
     queue_bounded (snd (WorkerThread_dequeue s)) \<and>
     queue_bounded (snd (Stop s)) \<and>
     (depth = 0 \<or> depth > 1000 \<or> GetQueueDepth s \<le> depth \<longrightarrow>
        queue_bounded (snd (SetMaxQueueDepth depth s))) \<and>
     (1 \<le> depth \<and> depth \<le> 1000 \<and> depth < GetQueueDepth s \<longrightarrow>
        fst (SetMaxQueueDepth depth s) = True \<and> \<not> queue_bounded (snd (SetMaxQueueDepth depth s)))"
  using queue_bounded_ProcessFrame [of s now frame] queue_bounded_wait [of s f]
        queue_bounded_dequeue [of s] queue_bounded_Stop [of s]
        queue_bounded_SetMaxQueueDepth [of s depth] queue_unbounded_SetMaxQueueDepth [of depth s]
  by blast

theorem queue_depth_bound_preserved_witness:
  "queue_bounded sink_full_drop \<and>
   queue_bounded (snd (ProcessFrame 0 (Some (test_frame 3)) sink_full_drop)) \<and>
   queue_bounded (snd (ProcessFrame_wait (test_frame 3) sink_full_drop)) \<and>
   queue_bounded (snd (WorkerThread_dequeue sink_full_drop)) \<and>
   queue_bounded (snd (Stop sink_full_drop)) \<and>
   queue_bounded (snd (SetMaxQueueDepth 0 sink_full_drop)) \<and>
   queue_bounded (snd (SetMaxQueueDepth 2 sink_full_drop)) \<and>
   \<not> queue_bounded (snd (SetMaxQueueDepth 1 sink_full_drop))"
proof -
  have b: "queue_bounded sink_full_drop"
    by (simp add: queue_bounded_def GetQueueDepth_def GetMaxQueueDepth_def sink_full_drop_def
          sink_initialized_def)
  have d: "GetQueueDepth sink_full_drop = 2"
    by (simp add: GetQueueDepth_def sink_full_drop_def sink_initialized_def)
  show ?thesis
    using b d
      queue_depth_bound_preserved [of sink_full_drop 0 "Some (test_frame 3)" "test_frame 3" 0]
      queue_depth_bound_preserved [of sink_full_drop 0 "Some (test_frame 3)" "test_frame 3" 2]
      queue_depth_bound_preserved [of sink_full_drop 0 "Some (test_frame 3)" "test_frame 3" 1]
    by simp
qed

text \<open>
  C7 as stated fails for \<open>SetMaxQueueDepth\<close>: with three frames queued and a maximum of
  10, lowering the maximum to 2 succeeds and leaves a depth of 3 above it.
\<close>

theorem SetMaxQueueDepth_breaks_bound_counterexample:
  "GetQueueDepth sink_three_queued = 3 \<and> GetMaxQueueDepth sink_three_queued = 10 \<and>
   fst (SetMaxQueueDepth 2 sink_three_queued) = True \<and>
   GetQueueDepth (snd (SetMaxQueueDepth 2 sink_three_queued)) = 3 \<and>
   GetMaxQueueDepth (snd (SetMaxQueueDepth 2 sink_three_queued)) = 2 \<and>
   \<not> GetQueueDepth (snd (SetMaxQueueDepth 2 sink_three_queued))
       \<le> GetMaxQueueDepth (snd (SetMaxQueueDepth 2 sink_three_queued))"
  by (simp add: SetMaxQueueDepth_def GetQueueDepth_def GetMaxQueueDepth_def sink_three_queued_def
        sink_initialized_def)

section \<open>Exceptions in the worker's hook\<close>

lemma WorkerThread_dequeue_front:
  "frame_queue s = f # rest \<Longrightarrow>
     WorkerThread_dequeue s =
       (DequeuedFrame f,
        s\<lparr>frame_queue := rest,
          stats := (stats s)\<lparr>queue_depth := of_nat (length rest)\<rparr>,
          queue_not_full_condition := queue_not_full_condition s + 1\<rparr>)"
  by (simp add: WorkerThread_dequeue_def Let_def)

lemma WorkerThread_process_throws:
  "ProcessFrameImpl f s = (HookThrows what, s1) \<Longrightarrow>
     WorkerThread_process ProcessFrameImpl now f s = (Continue, UpdateStats now False 0 True s1)"
  by (simp add: WorkerThread_process_def)

lemma UpdateStats_dropped:
  "frames_dropped (stats (UpdateStats now False 0 True s)) = frames_dropped (stats s) + 1 \<and>
   frames_processed (stats (UpdateStats now False 0 True s)) = frames_processed (stats s) \<and>
   bytes_processed (stats (UpdateStats now False 0 True s)) = bytes_processed (stats s) \<and>
   error_calls (UpdateStats now False 0 True s) = error_calls s \<and>
   last_error (UpdateStats now False 0 True s) = last_error s \<and>
   state (UpdateStats now False 0 True s) = state s"
  by (simp add: UpdateStats_def Let_def)

text \<open>
  C4 (as amended). When the worker takes a frame from the queue and the hook throws a
  \<open>std::exception\<close>, that turn of the loop counts the frame in \<open>frames_dropped\<close> (one more
  than the hook left it), leaves \<open>frames_processed\<close> alone, and goes back to the loop head,
  so the worker goes on with the frames that follow. The worker itself does not invoke
  the error callback, and does not touch \<open>last_error\<close> or the state: they are as the hook
  left them.
\<close>

theorem WorkerThread_hook_exception:
  assumes "\<not> stop_worker s" and "frame_queue s = f # rest"
    and "ProcessFrameImpl f (snd (WorkerThread_dequeue s)) = (HookThrows what, s1)"
  shows "WorkerThread_iteration ProcessFrameImpl now s = (Continue, UpdateStats now False 0 True s1) \<and>
    frames_dropped (stats (snd (WorkerThread_iteration ProcessFrameImpl now s))) =
      frames_dropped (stats s1) + 1 \<and>
    frames_processed (stats (snd (WorkerThread_iteration ProcessFrameImpl now s))) =
      frames_processed (stats s1) \<and>
    error_calls (snd (WorkerThread_iteration ProcessFrameImpl now s)) = error_calls s1 \<and>
    last_error (snd (WorkerThread_iteration ProcessFrameImpl now s)) = last_error s1 \<and>
    state (snd (WorkerThread_iteration ProcessFrameImpl now s)) = state s1 \<and>
    WorkerThread ProcessFrameImpl (now # later) s =
      WorkerThread ProcessFrameImpl later (UpdateStats now False 0 True s1)"
proof -
  have it: "WorkerThread_iteration ProcessFrameImpl now s = (Continue, UpdateStats now False 0 True s1)"
    using assms WorkerThread_dequeue_front [OF assms(2)]
    by (simp add: WorkerThread_iteration_def WorkerThread_process_throws)
  then show ?thesis
    by (simp add: UpdateStats_dropped)
qed

text \<open>
  A queue of two frames and a hook that throws on the first: the first turn drops it, the
  second processes the other frame, the third finds the queue empty and sleeps.
\<close>

theorem WorkerThread_hook_exception_witness:
  "WorkerThread_iteration first_frame_throws 10 sink_two_queued =
     (Continue,
      sink_two_queued\<lparr>frame_queue := [test_frame 2],
        stats := stats_zero\<lparr>frames_dropped := 1, queue_depth := 1\<rparr>,
        queue_not_full_condition := 1\<rparr>) \<and>
   WorkerThread first_frame_throws [10, 20, 30] sink_two_queued =
     (Sleeps,
      sink_two_queued\<lparr>frame_queue := [],
        stats := \<lparr>frames_processed = 1, frames_dropped = 1, bytes_processed = 921600,
                  queue_depth = 0, last_frame_time = 20\<rparr>,
        queue_not_full_condition := 2\<rparr>)"
proof -
  have q: "frame_queue sink_two_queued = test_frame 1 # [test_frame 2]"
    by (simp add: sink_two_queued_def sink_initialized_def)
  have ns: "\<not> stop_worker sink_two_queued"
    by (simp add: sink_two_queued_def sink_initialized_def)
  have h: "first_frame_throws (test_frame 1) (snd (WorkerThread_dequeue sink_two_queued)) =
             (HookThrows ''write failed'', snd (WorkerThread_dequeue sink_two_queued))"
    by (simp add: first_frame_throws_def test_frame_def)
  have t: "WorkerThread_iteration first_frame_throws 10 sink_two_queued =
      (Continue, UpdateStats 10 False 0 True (snd (WorkerThread_dequeue sink_two_queued))) \<and>
    WorkerThread first_frame_throws [10, 20, 30] sink_two_queued =
      WorkerThread first_frame_throws [20, 30]
        (UpdateStats 10 False 0 True (snd (WorkerThread_dequeue sink_two_queued)))"
    using ns q h
      WorkerThread_hook_exception [where s = sink_two_queued and f = "test_frame 1"
        and rest = "[test_frame 2]" and ProcessFrameImpl = first_frame_throws
        and what = "''write failed''" and ?s1.0 = "snd (WorkerThread_dequeue sink_two_queued)"
        and now = 10 and later = "[20, 30]"]
    by blast
  have d: "snd (WorkerThread_dequeue sink_two_queued) =
      sink_two_queued\<lparr>frame_queue := [test_frame 2],
        stats := stats_zero\<lparr>queue_depth := 1\<rparr>, queue_not_full_condition := 1\<rparr>"
    by (simp add: WorkerThread_dequeue_def Let_def sink_two_queued_def sink_initialized_def)
  have rest: "WorkerThread first_frame_throws [20, 30]
      (UpdateStats 10 False 0 True (snd (WorkerThread_dequeue sink_two_queued))) =
     (Sleeps,
      sink_two_queued\<lparr>frame_queue := [],
        stats := \<lparr>frames_processed = 1, frames_dropped = 1, bytes_processed = 921600,
                  queue_depth = 0, last_frame_time = 20\<rparr>,
        queue_not_full_condition := 2\<rparr>)"
    by (simp add: d WorkerThread_iteration_def WorkerThread_dequeue_def WorkerThread_process_def
          first_frame_throws_def test_frame_def UpdateStats_def Let_def sink_two_queued_def
          sink_initialized_def stats_zero_def)
  have u: "UpdateStats 10 False 0 True (snd (WorkerThread_dequeue sink_two_queued)) =
      sink_two_queued\<lparr>frame_queue := [test_frame 2],
        stats := stats_zero\<lparr>frames_dropped := 1, queue_depth := 1\<rparr>,
        queue_not_full_condition := 1\<rparr>"
    unfolding d
    by (simp add: UpdateStats_def Let_def stats_zero_def sink_two_queued_def sink_initialized_def)
  from t rest show ?thesis
    unfolding u by simp
qed

text \<open>
  C4 as stated fails: with an error callback installed and a hook that throws, the turn
  counts the drop and continues, and the callback has not been invoked.
\<close>

theorem WorkerThread_no_error_callback_counterexample:
  "error_callback sink_two_queued \<and>
   first_frame_throws (test_frame 1) (snd (WorkerThread_dequeue sink_two_queued)) =
     (HookThrows ''write failed'', snd (WorkerThread_dequeue sink_two_queued)) \<and>
   fst (WorkerThread_iteration first_frame_throws 10 sink_two_queued) = Continue \<and>
   frames_dropped (stats (snd (WorkerThread_iteration first_frame_throws 10 sink_two_queued))) = 1 \<and>
   error_calls sink_two_queued = [] \<and>
   error_calls (snd (WorkerThread_iteration first_frame_throws 10 sink_two_queued)) = []"
  by (simp add: WorkerThread_iteration_def WorkerThread_dequeue_def WorkerThread_process_def
        first_frame_throws_def test_frame_def UpdateStats_def Let_def sink_two_queued_def
        sink_initialized_def stats_zero_def)

section \<open>Emitting frames\<close>

lemma EmitFrame_null:
  "EmitFrame callback clk None (s, st, w) = (EmitReturns, s, st, w)"
  by (simp add: EmitFrame_def)

lemma EmitFrame_no_callback:
  "\<not> frame_callback s \<Longrightarrow> EmitFrame callback clk frame (s, st, w) = (EmitReturns, s, st, w)"
  by (simp add: EmitFrame_def split: option.splits)

lemma EmitFrame_gate_closed:
  "frame_callback s \<Longrightarrow> \<not> ShouldEmitFrame (t_gate clk) s \<Longrightarrow>
     EmitFrame callback clk (Some p) (s, st, w) =
       (EmitReturns, UpdateStats (t_gate clk) False 0 True s, st, w)"
  by (simp add: EmitFrame_def)

lemma EmitFrame_callback_returns:
  "frame_callback s \<Longrightarrow> ShouldEmitFrame (t_gate clk) s \<Longrightarrow>
   callback p (s, stamped clk s p st, w) = (CallbackReturns, s2, st2, w2) \<Longrightarrow>
     EmitFrame callback clk (Some p) (s, st, w) =
       (EmitReturns,
        (UpdateStats (t_stats clk) True (data_size (st2 p)) False s2)
          \<lparr>source_last_frame_time := t_last clk\<rparr>,
        st2, w2)"
  by (simp add: EmitFrame_def stamped_def Let_def GetStats_def GetSize_def)

lemma EmitFrame_callback_throws:
  "frame_callback s \<Longrightarrow> ShouldEmitFrame (t_gate clk) s \<Longrightarrow>
   callback p (s, stamped clk s p st, w) = (CallbackThrows, s2, st2, w2) \<Longrightarrow>
     EmitFrame callback clk (Some p) (s, st, w) = (EmitThrows, s2, st2, w2)"
  by (simp add: EmitFrame_def stamped_def Let_def GetStats_def GetSize_def)

lemma UpdateStats_processed:
  "frames_processed (stats (UpdateStats now True bytes False s)) = frames_processed (stats s) + 1 \<and>
   frames_dropped (stats (UpdateStats now True bytes False s)) = frames_dropped (stats s)"
  by (simp add: UpdateStats_def Let_def)

lemma stamped_sequence_number:
  "sequence_number (frame_info (stamped clk s p st p)) = frames_processed (stats s) + 1"
  by (simp add: stamped_def)

text \<open>One call of \<open>EmitFrame\<close> with a watched callback that keeps the count.\<close>

lemma EmitFrame_observed_step:
  assumes k: "keeps_frames_processed callback"
    and e: "EmitFrame (observed callback) clk frame (s, st, w, delivered) = (r, s', st', w', delivered')"
  shows "(r = EmitReturns \<and> delivered' = delivered \<and>
          frames_processed (stats s') = frames_processed (stats s)) \<or>
         (\<exists>f. delivered' = delivered @ [f] \<and>
              sequence_number (frame_info f) = frames_processed (stats s) + 1 \<and>
              (r = EmitReturns \<longrightarrow> frames_processed (stats s') = frames_processed (stats s) + 1))"
proof (cases frame)
  case None
  with e show ?thesis by (simp add: EmitFrame_null)
next
  case (Some p)
  show ?thesis
  proof (cases "frame_callback s")
    case False
    with e show ?thesis by (simp add: EmitFrame_no_callback)
  next
    case cb: True
    show ?thesis
    proof (cases "ShouldEmitFrame (t_gate clk) s")
      case False
      with e cb Some show ?thesis
        by (auto simp: EmitFrame_gate_closed UpdateStats_def Let_def)
    next
      case True
      obtain o2 s2 st2 w2 where c: "callback p (s, stamped clk s p st, w) = (o2, s2, st2, w2)"
        by (metis prod_cases4)
      from k c have fp2: "frames_processed (stats s2) = frames_processed (stats s)"
        unfolding keeps_frames_processed_def by (metis fst_conv snd_conv)
      have oc: "observed callback p (s, stamped clk s p st, w, delivered) =
          (o2, s2, st2, w2, delivered @ [stamped clk s p st p])"
        using c by (simp add: observed_def)
      show ?thesis
      proof (cases o2)
        case CallbackReturns
        from EmitFrame_callback_returns [where callback = "observed callback" and s = s
            and clk = clk and p = p and st = st and w = "(w, delivered)" and ?s2.0 = s2
            and ?st2.0 = st2 and ?w2.0 = "(w2, delivered @ [stamped clk s p st p])"]
          cb True oc CallbackReturns e Some
        have "r = EmitReturns" "delivered' = delivered @ [stamped clk s p st p]"
          "s' = (UpdateStats (t_stats clk) True (data_size (st2 p)) False s2)
                  \<lparr>source_last_frame_time := t_last clk\<rparr>"
          by auto
        with fp2 show ?thesis
          by (simp add: stamped_sequence_number UpdateStats_def Let_def)
      next
        case CallbackThrows
        from EmitFrame_callback_throws [where callback = "observed callback" and s = s
            and clk = clk and p = p and st = st and w = "(w, delivered)" and ?s2.0 = s2
            and ?st2.0 = st2 and ?w2.0 = "(w2, delivered @ [stamped clk s p st p])"]
          cb True oc CallbackThrows e Some
        have "r = EmitThrows" "delivered' = delivered @ [stamped clk s p st p]"
          by auto
        then show ?thesis
          by (simp add: stamped_sequence_number)
      qed
    qed
  qed
qed

lemma upt_consecutive:
  "map (\<lambda>i. (a::64 word) + of_nat (Suc i)) [0..<Suc n] =
     (a + 1) # map (\<lambda>i. a + 1 + of_nat (Suc i)) [0..<n]"
  by (simp add: upt_rec [of 0 "Suc n"] map_Suc_upt [symmetric] add.assoc add.commute del: upt_Suc)

lemma EmitFrames_observed:
  assumes k: "keeps_frames_processed callback"
  shows "\<exists>new. delivered_frames (EmitFrames (observed callback) calls (s, st, w, delivered)) =
        delivered @ new \<and>
     length new \<le> length calls \<and>
     sequence_numbers new =
       map (\<lambda>i. frames_processed (stats s) + of_nat (Suc i)) [0..<length new] \<and>
     (fst (EmitFrames (observed callback) calls (s, st, w, delivered)) = EmitReturns \<longrightarrow>
        frames_processed (stats (fst (snd (EmitFrames (observed callback) calls (s, st, w, delivered))))) =
          frames_processed (stats s) + of_nat (length new))"
proof (induction calls arbitrary: s st w delivered)
  case Nil
  show ?case by (simp add: delivered_frames_def sequence_numbers_def)
next
  case (Cons c calls)
  obtain clk frame where c: "c = (clk, frame)" by (cases c)
  obtain r s' st' w' delivered' where
    e: "EmitFrame (observed callback) clk frame (s, st, w, delivered) = (r, s', st', w', delivered')"
    by (metis prod_cases5)
  from Cons.IH [of s' st' w' delivered'] obtain new where
    n1: "delivered_frames (EmitFrames (observed callback) calls (s', st', w', delivered')) =
           delivered' @ new" and
    n2: "length new \<le> length calls" and
    n3: "sequence_numbers new =
           map (\<lambda>i. frames_processed (stats s') + of_nat (Suc i)) [0..<length new]" and
    n4: "fst (EmitFrames (observed callback) calls (s', st', w', delivered')) = EmitReturns \<longrightarrow>
        frames_processed (stats (fst (snd (EmitFrames (observed callback) calls (s', st', w', delivered'))))) =
          frames_processed (stats s') + of_nat (length new)"
    by blast
  show ?case
  proof (cases r)
    case EmitThrows
    with EmitFrame_observed_step [OF k e] obtain f where
      f1: "delivered' = delivered @ [f]" and
      f2: "sequence_number (frame_info f) = frames_processed (stats s) + 1"
      by auto
    show ?thesis
      apply (rule exI [of _ "[f]"])
      using c e EmitThrows f1 f2
      by (simp add: delivered_frames_def sequence_numbers_def)
  next
    case EmitReturns
    from EmitFrame_observed_step [OF k e] EmitReturns
    have "(delivered' = delivered \<and> frames_processed (stats s') = frames_processed (stats s)) \<or>
         (\<exists>f. delivered' = delivered @ [f] \<and>
              sequence_number (frame_info f) = frames_processed (stats s) + 1 \<and>
              frames_processed (stats s') = frames_processed (stats s) + 1)"
      by auto
    then show ?thesis
    proof
      assume a: "delivered' = delivered \<and> frames_processed (stats s') = frames_processed (stats s)"
      show ?thesis
        apply (rule exI [of _ new])
        using a n1 n2 n3 n4 c e EmitReturns by simp
    next
      assume "\<exists>f. delivered' = delivered @ [f] \<and>
              sequence_number (frame_info f) = frames_processed (stats s) + 1 \<and>
              frames_processed (stats s') = frames_processed (stats s) + 1"
      then obtain f where f1: "delivered' = delivered @ [f]"
        and f2: "sequence_number (frame_info f) = frames_processed (stats s) + 1"
        and f3: "frames_processed (stats s') = frames_processed (stats s) + 1" by blast
      show ?thesis
        apply (rule exI [of _ "f # new"])
        using f1 f2 f3 n1 n2 n3 n4 c e EmitReturns upt_consecutive [of "frames_processed (stats s)" "length new"]
        by (simp add: sequence_numbers_def add.assoc del: upt_Suc)
    qed
  qed
qed

lemma unat_add_of_nat_64:
  "unat a + k < 2 ^ 64 \<Longrightarrow> unat (a + of_nat k :: 64 word) = unat a + k"
  by (simp add: unat_word_ariths unat_of_nat)

lemma consecutive_sorted:
  assumes "unat (a :: 64 word) + n < 2 ^ 64"
  shows "sorted_wrt (<) (map (\<lambda>i. a + of_nat (Suc i)) [0..<n])"
proof -
  have "a + of_nat (Suc i) < a + of_nat (Suc j)" if "i < j" "j < n" for i j
  proof -
    have "unat (a + of_nat (Suc i)) = unat a + Suc i" "unat (a + of_nat (Suc j)) = unat a + Suc j"
      using that assms by (simp_all only: unat_add_of_nat_64)
    with that show ?thesis by (simp add: word_less_nat_alt)
  qed
  then show ?thesis
    by (simp add: sorted_wrt_iff_nth_less)
qed

lemma EmitFrames_consecutive:
  assumes "keeps_frames_processed callback"
  shows "sequence_numbers (delivered_frames (EmitFrames (observed callback) calls (s, st, w, []))) =
     map (\<lambda>i. frames_processed (stats s) + of_nat (Suc i))
       [0..<length (delivered_frames (EmitFrames (observed callback) calls (s, st, w, [])))] \<and>
     length (delivered_frames (EmitFrames (observed callback) calls (s, st, w, []))) \<le> length calls"
  using EmitFrames_observed [OF assms, of calls s st w "[]"] by auto

lemma EmitFrames_strictly_increasing:
  assumes "keeps_frames_processed callback"
    and "unat (frames_processed (stats s)) + length calls < 2 ^ 64"
  shows "sorted_wrt (<)
     (sequence_numbers (delivered_frames (EmitFrames (observed callback) calls (s, st, w, []))))"
proof -
  let ?d = "delivered_frames (EmitFrames (observed callback) calls (s, st, w, []))"
  from EmitFrames_consecutive [OF assms(1), of calls s st w]
  have n5: "sequence_numbers ?d = map (\<lambda>i. frames_processed (stats s) + of_nat (Suc i)) [0..<length ?d]"
    and n2: "length ?d \<le> length calls"
    by simp_all
  from assms(2) n2 have "unat (frames_processed (stats s)) + length ?d < 2 ^ 64" by simp
  from consecutive_sorted [OF this] n5 show ?thesis by simp
qed

text \<open>
  C2 (as amended). With a callback installed, \<open>EmitFrame\<close> on a frame first applies the
  gate: when the interval has not elapsed nothing is stamped, the callback is not called
  and \<open>frames_dropped\<close> goes up by one. Otherwise the frame object is stamped in place with
  the current time and with \<open>frames_processed + 1\<close>, and the callback is called with it on
  the source as it is then, its statistics not yet updated. When the callback returns,
  the statistics of the source as the callback left it are updated as a success
  (\<open>frames_processed\<close> goes up by one); when the callback throws, the exception leaves
  \<open>EmitFrame\<close> and the statistics are not updated. Consequently, over a run of
  \<open>EmitFrame\<close> calls in which nothing else changes \<open>frames_processed\<close> (the callback keeps
  it, and the statistics are not reset in between), the sequence numbers handed to the
  callback are \<open>frames_processed + 1\<close>, \<open>+ 2\<close>, and so on from the count at the start of the
  run, and they are strictly increasing as long as the 64-bit counter does not wrap.
\<close>

theorem EmitFrame_in_order:
  "(frame_callback s \<and> \<not> ShouldEmitFrame (t_gate clk) s \<longrightarrow>
      EmitFrame callback clk (Some p) (s, st, w) =
        (EmitReturns, UpdateStats (t_gate clk) False 0 True s, st, w) \<and>
      frames_dropped (stats (UpdateStats (t_gate clk) False 0 True s)) = frames_dropped (stats s) + 1 \<and>
      frames_processed (stats (UpdateStats (t_gate clk) False 0 True s)) = frames_processed (stats s)) \<and>
   (frame_callback s \<and> ShouldEmitFrame (t_gate clk) s \<and>
    callback p (s, stamped clk s p st, w) = (CallbackReturns, s2, st2, w2) \<longrightarrow>
      EmitFrame callback clk (Some p) (s, st, w) =
        (EmitReturns,
         (UpdateStats (t_stats clk) True (data_size (st2 p)) False s2)
           \<lparr>source_last_frame_time := t_last clk\<rparr>,
         st2, w2) \<and>
      frames_processed (stats (UpdateStats (t_stats clk) True (data_size (st2 p)) False s2)) =
        frames_processed (stats s2) + 1 \<and>
      frames_dropped (stats (UpdateStats (t_stats clk) True (data_size (st2 p)) False s2)) =
        frames_dropped (stats s2)) \<and>
   (frame_callback s \<and> ShouldEmitFrame (t_gate clk) s \<and>
    callback p (s, stamped clk s p st, w) = (CallbackThrows, s2, st2, w2) \<longrightarrow>
      EmitFrame callback clk (Some p) (s, st, w) = (EmitThrows, s2, st2, w2)) \<and>
   sequence_number (frame_info (stamped clk s p st p)) = frames_processed (stats s) + 1 \<and>
   timestamp_us (frame_info (stamped clk s p st p)) = GetCurrentTimestampUs (t_stamp clk) \<and>
   (keeps_frames_processed cb \<longrightarrow>
      sequence_numbers (delivered_frames (EmitFrames (observed cb) calls (r, rst, rw, []))) =
        map (\<lambda>i. frames_processed (stats r) + of_nat (Suc i))
          [0..<length (delivered_frames (EmitFrames (observed cb) calls (r, rst, rw, [])))] \<and>
      (unat (frames_processed (stats r)) + length calls < 2 ^ 64 \<longrightarrow>
         sorted_wrt (<)
           (sequence_numbers (delivered_frames (EmitFrames (observed cb) calls (r, rst, rw, []))))))"
proof -
  have ts: "timestamp_us (frame_info (stamped clk s p st p)) = GetCurrentTimestampUs (t_stamp clk)"
    by (simp add: stamped_def)
  show ?thesis
    using EmitFrame_gate_closed [of s clk callback p st w]
      EmitFrame_callback_returns [of s clk callback p st w s2 st2 w2]
      EmitFrame_callback_throws [of s clk callback p st w s2 st2 w2]
      EmitFrames_consecutive [of cb calls r rst rw]
      EmitFrames_strictly_increasing [of cb r calls rst rw]
      stamped_sequence_number [of clk s p st] ts
      UpdateStats_dropped [of "t_gate clk" s]
      UpdateStats_processed [of "t_stats clk" "data_size (st2 p)" s2]
    by blast
qed

lemma accept_frame_keeps: "keeps_frames_processed accept_frame"
  by (simp add: keeps_frames_processed_def accept_frame_def)

lemmas emit_defs = EmitFrame_def ShouldEmitFrame_def clock_at_def duration_cast_us_def
  UpdateStats_def Let_def GetStats_def GetSize_def GetCurrentTimestampUs_def
  record_frame_def observed_def accept_frame_def delivered_frames_def sequence_numbers_def
  test_store_def test_frame_def frame_info_vga_def stats_zero_def

lemma source_running_gate:
  "frame_callback source_running \<and>
   ShouldEmitFrame (t_gate (clock_at 40000000)) source_running \<and>
   \<not> ShouldEmitFrame (t_gate (clock_at 20000000)) source_running \<and>
   frames_processed (stats source_running) = 0"
  by (simp add: ShouldEmitFrame_def clock_at_def source_running_def source_initialized_def
        duration_cast_us_def stats_zero_def)

lemma three_calls_sequence:
  "sequence_numbers (delivered_frames
     (EmitFrames record_frame three_calls (source_running, test_store, (), []))) = [1, 2]"
  by (simp add: three_calls_def source_running_def source_initialized_def emit_defs)

text \<open>
  The stamp is written on the frame object: when the same object is emitted twice it is
  handed over reading 1, then reading 2, and whoever kept the pointer from the first call
  reads 2 afterwards.
\<close>

lemma same_frame_twice_stamps:
  "sequence_numbers (delivered_frames
     (EmitFrames record_frame same_frame_twice (source_running, test_store, (), []))) = [1, 2] \<and>
   sequence_number (frame_info (fst (snd (snd
     (EmitFrames record_frame same_frame_twice (source_running, test_store, (), [])))) 0)) = 2"
  by (simp add: same_frame_twice_def source_running_def source_initialized_def emit_defs)

text \<open>
  On the running source: a call 20 ms after the last frame is dropped by the gate; a call
  40 ms after it stamps the frame 1 and calls the callback, which finds
  \<open>frames_processed\<close> still 0; when the callback throws the count stays 0; and the three
  calls deliver the numbers 1, 2.
\<close>

theorem EmitFrame_in_order_witness:
  "EmitFrame note_count (clock_at 20000000) (Some 0) (source_running, test_store, []) =
     (EmitReturns, source_running\<lparr>stats := stats_zero\<lparr>frames_dropped := 1\<rparr>\<rparr>, test_store, []) \<and>
   EmitFrame note_count (clock_at 40000000) (Some 0) (source_running, test_store, []) =
     (EmitReturns,
      source_running\<lparr>stats := \<lparr>frames_processed = 1, frames_dropped = 0,
          bytes_processed = 921600, queue_depth = 0, last_frame_time = 40002000\<rparr>,
        source_last_frame_time := 40003000\<rparr>,
      stamped (clock_at 40000000) source_running 0 test_store, [0]) \<and>
   EmitFrame note_count_and_throw (clock_at 40000000) (Some 0) (source_running, test_store, []) =
     (EmitThrows, source_running, stamped (clock_at 40000000) source_running 0 test_store, [0]) \<and>
   sequence_number (frame_info (stamped (clock_at 40000000) source_running 0 test_store 0)) = 1 \<and>
   timestamp_us (frame_info (stamped (clock_at 40000000) source_running 0 test_store 0)) = 40001 \<and>
   sequence_numbers (delivered_frames
     (EmitFrames record_frame three_calls (source_running, test_store, (), []))) = [1, 2] \<and>
   sorted_wrt (<) (sequence_numbers (delivered_frames
     (EmitFrames record_frame three_calls (source_running, test_store, (), []))))"
proof -
  let ?st = "stamped (clock_at 40000000) source_running 0 test_store"
  have len: "unat (frames_processed (stats source_running)) + length three_calls < 2 ^ 64"
    by (simp add: source_running_gate three_calls_def)
  have ret: "note_count 0 (source_running, ?st, []) = (CallbackReturns, source_running, ?st, [0])"
    by (simp add: note_count_def source_running_gate)
  have thr: "note_count_and_throw 0 (source_running, ?st, []) =
      (CallbackThrows, source_running, ?st, [0])"
    by (simp add: note_count_and_throw_def source_running_gate)
  note inst1 = EmitFrame_in_order [where s = source_running and clk = "clock_at 20000000"
      and callback = note_count and p = 0 and st = test_store and w = "[]"
      and ?s2.0 = source_running and ?st2.0 = ?st and ?w2.0 = "[0]"
      and cb = accept_frame and calls = three_calls and r = source_running
      and rst = test_store and rw = "()"]
  note inst2 = EmitFrame_in_order [where s = source_running and clk = "clock_at 40000000"
      and callback = note_count and p = 0 and st = test_store and w = "[]"
      and ?s2.0 = source_running and ?st2.0 = ?st and ?w2.0 = "[0]"
      and cb = accept_frame and calls = three_calls and r = source_running
      and rst = test_store and rw = "()"]
  note inst3 = EmitFrame_in_order [where s = source_running and clk = "clock_at 40000000"
      and callback = note_count_and_throw and p = 0 and st = test_store and w = "[]"
      and ?s2.0 = source_running and ?st2.0 = ?st and ?w2.0 = "[0]"
      and cb = accept_frame and calls = three_calls and r = source_running
      and rst = test_store and rw = "()"]
  from inst1 source_running_gate
  have c1: "EmitFrame note_count (clock_at 20000000) (Some 0) (source_running, test_store, []) =
      (EmitReturns, UpdateStats (t_gate (clock_at 20000000)) False 0 True source_running,
       test_store, [])"
    by blast
  from inst2 source_running_gate ret
  have c2: "EmitFrame note_count (clock_at 40000000) (Some 0) (source_running, test_store, []) =
      (EmitReturns,
       (UpdateStats (t_stats (clock_at 40000000)) True (data_size (?st 0)) False source_running)
         \<lparr>source_last_frame_time := t_last (clock_at 40000000)\<rparr>,
       ?st, [0])"
    and c4: "sequence_number (frame_info (?st 0)) = frames_processed (stats source_running) + 1"
    and c5: "timestamp_us (frame_info (?st 0)) = GetCurrentTimestampUs (t_stamp (clock_at 40000000))"
    by blast+
  from inst3 source_running_gate thr
  have c3: "EmitFrame note_count_and_throw (clock_at 40000000) (Some 0)
      (source_running, test_store, []) = (EmitThrows, source_running, ?st, [0])"
    by blast
  from inst1 accept_frame_keeps len
  have c6: "sorted_wrt (<) (sequence_numbers (delivered_frames
     (EmitFrames record_frame three_calls (source_running, test_store, (), []))))"
    unfolding record_frame_def by blast
  have u1: "UpdateStats (t_gate (clock_at 20000000)) False 0 True source_running =
      source_running\<lparr>stats := stats_zero\<lparr>frames_dropped := 1\<rparr>\<rparr>"
    by (simp add: UpdateStats_def Let_def source_running_def source_initialized_def stats_zero_def)
  have u2: "(UpdateStats (t_stats (clock_at 40000000)) True (data_size (?st 0)) False source_running)
         \<lparr>source_last_frame_time := t_last (clock_at 40000000)\<rparr> =
      source_running\<lparr>stats := \<lparr>frames_processed = 1, frames_dropped = 0,
          bytes_processed = 921600, queue_depth = 0, last_frame_time = 40002000\<rparr>,
        source_last_frame_time := 40003000\<rparr>"
    by (simp add: UpdateStats_def Let_def source_running_def source_initialized_def stats_zero_def
          stamped_def test_store_def test_frame_def clock_at_def)
  have c4': "sequence_number (frame_info (?st 0)) = 1"
    using c4 source_running_gate by simp
  have c5': "timestamp_us (frame_info (?st 0)) = 40001"
    using c5 by (simp add: GetCurrentTimestampUs_def clock_at_def duration_cast_us_def)
  from c1 [unfolded u1] c2 [unfolded u2] c3 c4' c5' three_calls_sequence c6
  show ?thesis by blast
qed

text \<open>
  C2 as stated fails: \<open>ResetStats\<close> sets \<open>frames_processed\<close> back to 0, so a source that
  delivers a frame, has its statistics reset and delivers another frame hands over the
  numbers 1, 1.
\<close>

theorem EmitFrame_run_with_reset_counterexample:
  "sequence_numbers (delivered_frames run_with_reset) = [1, 1] \<and>
   \<not> sorted_wrt (<) (sequence_numbers (delivered_frames run_with_reset))"
  by (simp add: run_with_reset_def ResetStats_def source_running_def source_initialized_def
        emit_defs)

section \<open>Sequence numbers across a restart\<close>

lemma TestPatternSource_Stop_stats:
  "stats (snd (TestPatternSource_Stop s)) = stats s \<and>
   frame_callback (snd (TestPatternSource_Stop s)) = frame_callback s"
  by (simp add: TestPatternSource_Stop_def SetState_def Let_def)

lemma TestPatternSource_Start_stats:
  "stats (snd (TestPatternSource_Start s)) = stats s \<and>
   frame_callback (snd (TestPatternSource_Start s)) = frame_callback s"
  by (simp add: TestPatternSource_Start_def SetState_def SetError_def Let_def)

lemma TestPatternSource_Start_returns_true:
  "TestPatternSource_Start s = (Returns True, s1) \<Longrightarrow> GetState s1 = RUNNING"
  by (auto simp: TestPatternSource_Start_def SetState_def GetState_def Let_def split: if_splits)

lemma record_frame_eq:
  "record_frame p (s, st, w, delivered) = (CallbackReturns, s, st, w, delivered @ [st p])"
  by (simp add: record_frame_def observed_def accept_frame_def)

text \<open>With the recording callback a call always returns and leaves the callback installed.\<close>

lemma EmitFrame_record_frame:
  "fst (EmitFrame record_frame clk frame (s, st, w, delivered)) = EmitReturns \<and>
   frame_callback (fst (snd (EmitFrame record_frame clk frame (s, st, w, delivered)))) =
     frame_callback s"
  by (simp add: EmitFrame_def record_frame_eq UpdateStats_def Let_def split: option.splits)

lemma EmitFrames_record_frame:
  "fst (EmitFrames record_frame calls (s, st, w, delivered)) = EmitReturns \<and>
   frame_callback (fst (snd (EmitFrames record_frame calls (s, st, w, delivered)))) =
     frame_callback s"
proof (induction calls arbitrary: s st w delivered)
  case Nil
  show ?case by simp
next
  case (Cons c calls)
  obtain clk frame where c: "c = (clk, frame)" by (cases c)
  obtain r s' st' w' delivered' where
    e: "EmitFrame record_frame clk frame (s, st, w, delivered) = (r, s', st', w', delivered')"
    by (metis prod_cases5)
  from EmitFrame_record_frame [of clk frame s st w delivered] e
  have r: "r = EmitReturns" and cb: "frame_callback s' = frame_callback s" by simp_all
  from Cons.IH [of s' st' w' delivered'] c e r cb show ?case by simp
qed

text \<open>
  C6 (as amended). Neither \<open>Stop\<close> nor \<open>Start\<close> resets the statistics, and the sequence
  number is \<open>frames_processed + 1\<close>. So for a source that is started, delivers some
  frames, is stopped and is started again, the first frame emitted after the second
  start carries the number of frames the source has delivered so far (those counted in
  \<open>frames_processed\<close> before the first start, plus those of the first run) plus one.
\<close>

theorem restart_continues_sequence:
  assumes "TestPatternSource_Start s0 = (Returns True, s1)"
    and "frame_callback s0"
    and "EmitFrames record_frame calls (s1, st, w, []) = (r, s2, st2, w2, delivered)"
    and "TestPatternSource_Stop s2 = (True, s3)"
    and "TestPatternSource_Start s3 = (Returns True, s4)"
    and "ShouldEmitFrame (t_gate clk) s4"
  shows "GetState s4 = RUNNING \<and>
    frames_processed (stats s4) = frames_processed (stats s0) + of_nat (length delivered) \<and>
    sequence_numbers (delivered_frames (EmitFrame record_frame clk (Some p) (s4, st3, w3, []))) =
      [frames_processed (stats s0) + of_nat (length delivered) + 1]"
proof -
  have cb1: "frame_callback s1" and st1: "stats s1 = stats s0"
    using TestPatternSource_Start_stats [of s0] assms(1,2) by simp_all
  from EmitFrames_record_frame [of calls s1 st w "[]"] assms(3) cb1
  have ret: "r = EmitReturns" and cb2: "frame_callback s2" by simp_all
  from EmitFrames_observed [OF accept_frame_keeps, of calls s1 st w "[]"] assms(3) ret
  have fp2: "frames_processed (stats s2) = frames_processed (stats s1) + of_nat (length delivered)"
    by (auto simp: record_frame_def delivered_frames_def)
  have cb3: "frame_callback s3" and st3: "stats s3 = stats s2"
    using TestPatternSource_Stop_stats [of s2] assms(4) cb2 by simp_all
  have cb4: "frame_callback s4" and st4: "stats s4 = stats s3"
    using TestPatternSource_Start_stats [of s3] assms(5) cb3 by simp_all
  have fp4: "frames_processed (stats s4) = frames_processed (stats s0) + of_nat (length delivered)"
    using st4 st3 fp2 st1 by simp
  have "EmitFrame record_frame clk (Some p) (s4, st3, w3, []) =
      (EmitReturns,
       (UpdateStats (t_stats clk) True (data_size (stamped clk s4 p st3 p)) False s4)
         \<lparr>source_last_frame_time := t_last clk\<rparr>,
       stamped clk s4 p st3, w3, [stamped clk s4 p st3 p])"
    using EmitFrame_callback_returns [where callback = record_frame and s = s4 and clk = clk
        and p = p and st = st3 and w = "(w3, [])" and ?s2.0 = s4
        and ?st2.0 = "stamped clk s4 p st3" and ?w2.0 = "(w3, [stamped clk s4 p st3 p])"]
      cb4 assms(6)
    by (simp add: record_frame_eq)
  then have "sequence_numbers (delivered_frames (EmitFrame record_frame clk (Some p) (s4, st3, w3, []))) =
      [frames_processed (stats s4) + 1]"
    by (simp add: delivered_frames_def sequence_numbers_def stamped_sequence_number)
  with fp4 TestPatternSource_Start_returns_true [OF assms(5)] show ?thesis by simp
qed

lemmas run_defs = TestPatternSource_Start_def TestPatternSource_Stop_def
  GeneratorThread_iteration_def CreateVideoFrame_def GetFrameSize_def
  source_initialized_def GetState_def SetState_def emit_defs

lemma first_run_of_three_value:
  "fst first_run_of_three = EmitReturns \<and>
   length (delivered_frames first_run_of_three) = 2 \<and>
   sequence_numbers (delivered_frames first_run_of_three) = [1, 2] \<and>
   source_after_first_run = source_initialized\<lparr>state := RUNNING,
      stats := \<lparr>frames_processed = 2, frames_dropped = 1, bytes_processed = 1843200,
                queue_depth = 0, last_frame_time = 80002000\<rparr>,
      source_last_frame_time := 80003000, generator_thread := True, frame_counter := 0\<rparr>"
  by (simp add: source_after_first_run_def first_run_of_three_def three_calls_def run_defs)

text \<open>
  The source that delivered two frames in its first run delivers number 3 first after the
  restart.
\<close>

theorem restart_continues_sequence_witness:
  "GetState source_restarted = RUNNING \<and>
   frames_processed (stats source_restarted) = 2 \<and>
   sequence_numbers (delivered_frames (EmitFrame record_frame (clock_at 120000000) (Some 3)
     (source_restarted, test_store, (), []))) = [3]"
proof -
  have h1: "TestPatternSource_Start source_initialized =
      (Returns True, snd (TestPatternSource_Start source_initialized))"
    by (simp add: run_defs)
  have h2: "frame_callback source_initialized"
    by (simp add: source_initialized_def)
  have h3: "EmitFrames record_frame three_calls
        (snd (TestPatternSource_Start source_initialized), test_store, (), []) =
      (fst first_run_of_three, source_after_first_run, fst (snd (snd first_run_of_three)), (),
       delivered_frames first_run_of_three)"
    by (simp add: source_after_first_run_def first_run_of_three_def delivered_frames_def
          prod_eq_iff)
  have h4: "TestPatternSource_Stop source_after_first_run =
      (True, snd (TestPatternSource_Stop source_after_first_run))"
    by (simp add: TestPatternSource_Stop_def Let_def)
  have h5: "TestPatternSource_Start (snd (TestPatternSource_Stop source_after_first_run)) =
      (Returns True, source_restarted)"
    unfolding source_restarted_def
    by (simp add: first_run_of_three_value TestPatternSource_Start_def TestPatternSource_Stop_def
          source_initialized_def GetState_def SetState_def Let_def)
  have h6: "ShouldEmitFrame (t_gate (clock_at 120000000)) source_restarted"
    unfolding source_restarted_def
    by (simp add: first_run_of_three_value TestPatternSource_Start_def TestPatternSource_Stop_def
          source_initialized_def GetState_def SetState_def Let_def ShouldEmitFrame_def
          clock_at_def duration_cast_us_def)
  have z: "frames_processed (stats source_initialized) = 0"
    by (simp add: source_initialized_def stats_zero_def)
  from restart_continues_sequence [OF h1 h2 h3 h4 h5 h6, of 3 test_store "()"] z
    first_run_of_three_value
  show ?thesis by simp
qed

text \<open>
  C6 as stated fails: a fresh source is started and its generator delivers one frame
  (number 1); it is stopped and started again; the first frame its generator then
  delivers carries number 2, not 1, while \<open>frame_counter\<close> has restarted.
\<close>

theorem restart_sequence_counterexample:
  "fst first_run = Continue \<and>
   GetState (fst (snd first_run)) = RUNNING \<and>
   sequence_numbers (delivered_frames first_run) = [1] \<and>
   GetState (snd (TestPatternSource_Stop (fst (snd first_run)))) = STOPPED \<and>
   fst second_run = Continue \<and>
   GetState (fst (snd second_run)) = RUNNING \<and>
   frame_counter (fst (snd second_run)) = 1 \<and>
   sequence_numbers (delivered_frames second_run) = [2] \<and>
   sequence_numbers (delivered_frames second_run) \<noteq> [1]"
  by (simp add: second_run_def first_run_def run_defs)

section \<open>A block that cannot be created\<close>

lemma CreateBlocks_loop_failure:
  assumes "\<forall>d \<in> set created. CreateBlock_named registry (def_type d) (def_name d) \<noteq> None"
    and "CreateBlock_named registry (def_type failing) (def_name failing) = None"
  shows "fst (CreateBlocks_loop registry (created @ failing # rest) m) = False \<and>
    manager_last_error (snd (CreateBlocks_loop registry (created @ failing # rest) m)) =
      create_failure_message failing \<and>
    dom (blocks (snd (CreateBlocks_loop registry (created @ failing # rest) m))) =
      dom (blocks m) \<union> def_name ` set created \<and>
    config (snd (CreateBlocks_loop registry (created @ failing # rest) m)) = config m \<and>
    is_running (snd (CreateBlocks_loop registry (created @ failing # rest) m)) = is_running m"
  using assms(1)
proof (induction created arbitrary: m)
  case Nil
  with assms(2) show ?case by (simp add: create_failure_message_def)
next
  case (Cons d created)
  from Cons.prems obtain b where b: "CreateBlock_named registry (def_type d) (def_name d) = Some b"
    by auto
  from Cons.prems have rest: "\<forall>d \<in> set created. CreateBlock_named registry (def_type d) (def_name d) \<noteq> None"
    by simp
  show ?case
    using Cons.IH [OF rest, of "m\<lparr>blocks := (blocks m)(def_name d \<mapsto>
                  SetErrorCallback (manager_error_callback m) b)\<rparr>"] b
    by auto
qed

text \<open>
  C5 (as amended). When the manager is not running and the registry returns no instance
  for some block definition (\<open>failing\<close> being the first such, after the definitions
  \<open>created\<close>), \<open>Initialize\<close> returns false and \<open>last_error\<close> names the failing block and
  its type. The name-to-block map then holds exactly the blocks created before the
  failure, whatever it held before the call; it is empty exactly when the first block
  definition is the one that fails.
\<close>

theorem Initialize_create_failure:
  assumes "\<not> is_running m"
    and "block_defs cfg = created @ failing # rest"
    and "\<forall>d \<in> set created. CreateBlock_named registry (def_type d) (def_name d) \<noteq> None"
    and "CreateBlock_named registry (def_type failing) (def_name failing) = None"
  shows "fst (Initialize registry ConfigureBlocks ConnectBlocks cfg m) = False \<and>
    manager_last_error (snd (Initialize registry ConfigureBlocks ConnectBlocks cfg m)) =
      create_failure_message failing \<and>
    dom (blocks (snd (Initialize registry ConfigureBlocks ConnectBlocks cfg m))) =
      def_name ` set created \<and>
    (blocks (snd (Initialize registry ConfigureBlocks ConnectBlocks cfg m)) = Map.empty
       \<longleftrightarrow> created = [])"
proof -
  let ?m1 = "(m\<lparr>config := cfg\<rparr>)\<lparr>blocks := Map.empty\<rparr>"
  let ?r = "CreateBlocks_loop registry (created @ failing # rest) ?m1"
  from CreateBlocks_loop_failure [OF assms(3,4), of rest ?m1]
  have f: "fst ?r = False" and e: "manager_last_error (snd ?r) = create_failure_message failing"
    and d: "dom (blocks (snd ?r)) = def_name ` set created"
    by simp_all
  have r: "?r = (False, snd ?r)"
    using f by (simp add: prod_eq_iff)
  have c: "CreateBlocks registry (m\<lparr>config := cfg\<rparr>) = (False, snd ?r)"
    using r assms(2) by (simp add: CreateBlocks_def)
  have i: "Initialize registry ConfigureBlocks ConnectBlocks cfg m = (False, snd ?r)"
    using assms(1) by (simp add: Initialize_def Let_def c)
  have "(blocks (snd ?r) = Map.empty) = (dom (blocks (snd ?r)) = {})"
    by simp
  also have "\<dots> = (created = [])"
    unfolding d by simp
  finally show ?thesis
    using i e d by simp
qed

theorem Initialize_create_failure_witness:
  "fst failed_initialize = False \<and>
   manager_last_error (snd failed_initialize) =
     ''Failed to create block '' @ [CHR 0x27] @ ''out'' @ [CHR 0x27] @ '' of type '' @
       [CHR 0x27] @ ''NoSuchSink'' @ [CHR 0x27] \<and>
   dom (blocks (snd failed_initialize)) = {''src''}"
proof -
  let ?src = "\<lparr>def_name = ''src'', def_type = ''TestPatternSource'', parameters = Map.empty\<rparr>"
  let ?out = "\<lparr>def_name = ''out'', def_type = ''NoSuchSink'', parameters = Map.empty\<rparr>"
  have h1: "\<not> is_running manager_fresh"
    by (simp add: manager_fresh_def)
  have h2: "block_defs config_two_blocks = [?src] @ ?out # []"
    by (simp add: config_two_blocks_def)
  have h3: "\<forall>d \<in> set [?src].
      CreateBlock_named registry_source_only (def_type d) (def_name d) \<noteq> None"
    by (simp add: CreateBlock_named_def CreateBlock_def registry_source_only_def)
  have h4: "CreateBlock_named registry_source_only (def_type ?out) (def_name ?out) = None"
    by (simp add: CreateBlock_named_def CreateBlock_def registry_source_only_def)
  from Initialize_create_failure [OF h1 h2 h3 h4, of pass_succeeds pass_succeeds]
  show ?thesis
    by (simp add: create_failure_message_def failed_initialize_def)
qed

text \<open>
  C5 as stated fails: with a source that can be created followed by a sink of an
  unregistered type, \<open>Initialize\<close> returns false with \<open>last_error\<close> set, and the map still
  holds the source.
\<close>

theorem Initialize_partial_map_counterexample:
  "fst failed_initialize = False \<and>
   manager_last_error (snd failed_initialize) =
     ''Failed to create block '' @ [CHR 0x27] @ ''out'' @ [CHR 0x27] @ '' of type '' @
       [CHR 0x27] @ ''NoSuchSink'' @ [CHR 0x27] \<and>
   blocks (snd failed_initialize) ''src'' =
     Some (block_fresh\<lparr>block_name := ''src'', error_callback := True\<rparr>) \<and>
   blocks (snd failed_initialize) \<noteq> Map.empty"
proof -
  have a: "fst failed_initialize = False \<and>
   manager_last_error (snd failed_initialize) =
     ''Failed to create block '' @ [CHR 0x27] @ ''out'' @ [CHR 0x27] @ '' of type '' @
       [CHR 0x27] @ ''NoSuchSink'' @ [CHR 0x27] \<and>
   blocks (snd failed_initialize) ''src'' =
     Some (block_fresh\<lparr>block_name := ''src'', error_callback := True\<rparr>)"
    by (simp add: failed_initialize_def Initialize_def CreateBlocks_def CreateBlock_named_def
        CreateBlock_def SetName_def SetErrorCallback_def Let_def registry_source_only_def
        config_two_blocks_def manager_fresh_def pass_succeeds_def block_fresh_def)
  then have "blocks (snd failed_initialize) ''src'' \<noteq> None" by simp
  then have "blocks (snd failed_initialize) \<noteq> Map.empty" by auto
  with a show ?thesis by blast
qed

end
